theory Spec2Isabelle
  imports Complex_Main "HOL-Library.Log_Nat"
begin

section \<open>Technical indicator and composite scoring engine\<close>

text \<open>
  The engine is the class \<open>CryptoGodEngine\<close>. Two variants exist: the simplified engine
  (own implementations of SMA, RSI, Bollinger Bands, support/resistance with lookback 10)
  and the gateway engine of \<open>mcp-gateway.js\<close> (indicator library for SMA, RSI and bands, own
  support/resistance with lookback 20). Both share \<open>generateGodPrediction\<close> up to the shape
  of the \<open>technicals\<close> argument.

  A JavaScript number is a binary64 value; a finite one is a real. The moving average, the
  Bollinger Bands, the volatility and the composite score are modelled with binary64
  arithmetic: every \<open>+\<close>, \<open>-\<close>, \<open>*\<close>, \<open>/\<close>, \<open>Math.sqrt\<close> and decimal literal of the source is
  the exact result rounded to nearest, ties to even. Infinities and NaN are outside the
  model: the rounding function has no overflow, so the model is the program as long as no
  value reaches \<open>2 ^ 1024\<close> and no divisor is 0. The RSI is kept in exact arithmetic; what
  is proved about it is the value \<open>100 - 100 / 101\<close> against 100, which rounding leaves
  apart (the binary64 result is 99.00990099009901).
\<close>

subsection \<open>Array primitives\<close>

text \<open>\<open>xs.slice(s, e)\<close> for indices \<open>0 \<le> s\<close>, \<open>0 \<le> e\<close>: elements \<open>s\<close> to \<open>e - 1\<close>, clipped to the
  array.\<close>

definition slice :: "'a list \<Rightarrow> nat \<Rightarrow> nat \<Rightarrow> 'a list" where
  "slice xs s e = take (e - s) (drop s xs)"

text \<open>\<open>xs.slice(-k)\<close>: the last \<open>k\<close> elements, all of them when there are fewer.\<close>

definition slice_last :: "'a list \<Rightarrow> nat \<Rightarrow> 'a list" where
  "slice_last xs k = drop (length xs - k) xs"

text \<open>\<open>xs.reduce((a, b) => a + b, 0)\<close>: a left fold from 0.\<close>

definition reduce_sum :: "real list \<Rightarrow> real" where
  "reduce_sum xs = foldl (\<lambda>a b. a + b) 0 xs"

text \<open>\<open>xs[xs.length - 1]\<close>: the last element, \<open>undefined\<close> (here \<open>None\<close>) on the empty array.\<close>

definition last_elem :: "'a list \<Rightarrow> 'a option" where
  "last_elem xs = (if xs = [] then None else Some (xs ! (length xs - 1)))"

subsection \<open>Binary64 arithmetic\<close>

text \<open>Rounding a real to the nearest integer, a tie going to the even one.\<close>

definition rne :: "real \<Rightarrow> int" where
  "rne x =
     (let f = \<lfloor>x\<rfloor>; r = x - of_int f
      in if r < 1 / 2 then f else if 1 / 2 < r then f + 1 else if even f then f else f + 1)"

text \<open>The binary exponent of a positive real: \<open>2 ^ ilog2 x \<le> x < 2 ^ (ilog2 x + 1)\<close>.\<close>

definition ilog2 :: "real \<Rightarrow> int" where
  "ilog2 x = (if 1 \<le> x then bitlen \<lfloor>x\<rfloor> - 1 else - bitlen (\<lceil>1 / x\<rceil> - 1))"

text \<open>
  Rounding to binary64: 53 significant bits at the exponent of \<open>x\<close>, and the fixed spacing
  \<open>2 ^ -1074\<close> of the subnormal numbers below \<open>2 ^ -1022\<close>.
\<close>

definition fl :: "real \<Rightarrow> real" where
  "fl x =
     (if x = 0 then 0
      else
        (let e = max (ilog2 \<bar>x\<bar>) (- 1022);
             u = 2 powi (e - 52)
         in of_int (rne (x / u)) * u))"

text \<open>The operations of the source; a decimal literal \<open>d\<close> is \<open>fl d\<close>.\<close>

definition fadd :: "real \<Rightarrow> real \<Rightarrow> real" where
  "fadd x y = fl (x + y)"

definition fsub :: "real \<Rightarrow> real \<Rightarrow> real" where
  "fsub x y = fl (x - y)"

definition fmul :: "real \<Rightarrow> real \<Rightarrow> real" where
  "fmul x y = fl (x * y)"

definition fdiv :: "real \<Rightarrow> real \<Rightarrow> real" where
  "fdiv x y = fl (x / y)"

text \<open>\<open>Math.sqrt(x)\<close>, and \<open>Math.pow(x, 2)\<close>, which is the rounded product \<open>x * x\<close>.\<close>

definition fsqrt :: "real \<Rightarrow> real" where
  "fsqrt x = fl (sqrt x)"

definition fpow2 :: "real \<Rightarrow> real" where
  "fpow2 x = fl (x * x)"

text \<open>\<open>xs.reduce((a, b) => a + b, 0)\<close> in binary64.\<close>

definition reduce_sum64 :: "real list \<Rightarrow> real" where
  "reduce_sum64 xs = foldl (\<lambda>a b. fadd a b) 0 xs"

text \<open>The roundings at given numbers, proved one by one and used to evaluate the
  model.\<close>

named_theorems fl_value

subsection \<open>Simple moving average\<close>

text \<open>
  The loop runs \<open>i\<close> from \<open>period - 1\<close> to \<open>length - 1\<close> and slices
  \<open>[i - period + 1, i + 1)\<close>; on naturals the lower end is written \<open>i + 1 - period\<close>, which is
  the same number for \<open>period - 1 \<le> i\<close>. The engine calls it with periods 20 and 50; for
  period 0 the source divides by zero.
\<close>

definition calculateSMA :: "real list \<Rightarrow> nat \<Rightarrow> real list" where
  "calculateSMA prices period =
     map (\<lambda>i. fdiv (reduce_sum64 (slice prices (i + 1 - period) (i + 1))) (real period))
       [period - 1 ..< length prices]"

subsection \<open>Relative strength index\<close>

definition price_changes :: "real list \<Rightarrow> real list" where
  "price_changes prices = map (\<lambda>i. prices ! i - prices ! (i - 1)) [1 ..< length prices]"

definition window_gains :: "real list \<Rightarrow> nat \<Rightarrow> nat \<Rightarrow> real list" where
  "window_gains changes period i = filter (\<lambda>c. c > 0) (slice changes (i - period) i)"

definition window_losses :: "real list \<Rightarrow> nat \<Rightarrow> nat \<Rightarrow> real list" where
  "window_losses changes period i =
     map (\<lambda>c. \<bar>c\<bar>) (filter (\<lambda>c. c < 0) (slice changes (i - period) i))"

definition avgGain :: "real list \<Rightarrow> nat \<Rightarrow> nat \<Rightarrow> real" where
  "avgGain changes period i =
     (let gains = window_gains changes period i
      in if length gains > 0 then reduce_sum gains / real period else 0)"

definition avgLoss :: "real list \<Rightarrow> nat \<Rightarrow> nat \<Rightarrow> real" where
  "avgLoss changes period i =
     (let losses = window_losses changes period i
      in if length losses > 0 then reduce_sum losses / real period else 0)"

text \<open>The body of the main loop of \<open>calculateRSI\<close> at position \<open>i\<close>.\<close>

definition rsi_at :: "real list \<Rightarrow> nat \<Rightarrow> nat \<Rightarrow> real" where
  "rsi_at changes period i =
     (let rs = (if avgLoss changes period i = 0 then 100
                else avgGain changes period i / avgLoss changes period i)
      in 100 - 100 / (1 + rs))"

definition calculateRSI :: "real list \<Rightarrow> nat \<Rightarrow> real list" where
  "calculateRSI prices period =
     (let changes = price_changes prices
      in map (rsi_at changes period) [period ..< length changes])"

subsection \<open>Bollinger Bands\<close>

record bands =
  upper :: real
  middle :: real
  lower :: real

text \<open>The window of output position \<open>i\<close>: \<open>prices.slice(dataIndex - period + 1, dataIndex + 1)\<close>
  with \<open>dataIndex = i + period - 1\<close>.\<close>

definition bb_subset :: "real list \<Rightarrow> nat \<Rightarrow> nat \<Rightarrow> real list" where
  "bb_subset prices period i =
     (let dataIndex = i + period - 1
      in slice prices (dataIndex + 1 - period) (dataIndex + 1))"

definition bb_variance :: "real list \<Rightarrow> nat \<Rightarrow> real \<Rightarrow> nat \<Rightarrow> real" where
  "bb_variance prices period mean i =
     fdiv (foldl (\<lambda>sum price. fadd sum (fpow2 (fsub price mean))) 0 (bb_subset prices period i))
       (real period)"

definition bb_stdDev :: "real list \<Rightarrow> nat \<Rightarrow> real \<Rightarrow> nat \<Rightarrow> real" where
  "bb_stdDev prices period mean i = fsqrt (bb_variance prices period mean i)"

definition bb_at :: "real list \<Rightarrow> nat \<Rightarrow> real \<Rightarrow> real list \<Rightarrow> nat \<Rightarrow> bands" where
  "bb_at prices period multiplier sma i =
     (let mean = sma ! i;
          stdDev = bb_stdDev prices period mean i
      in \<lparr>upper = fadd mean (fmul stdDev multiplier), middle = mean,
          lower = fsub mean (fmul stdDev multiplier)\<rparr>)"

definition calculateBollingerBands :: "real list \<Rightarrow> nat \<Rightarrow> real \<Rightarrow> bands list" where
  "calculateBollingerBands prices period multiplier =
     (let sma = calculateSMA prices period
      in map (bb_at prices period multiplier sma) [0 ..< length sma])"

subsection \<open>Percentage volatility\<close>

definition calculateVolatility :: "real list \<Rightarrow> real" where
  "calculateVolatility prices =
     (let returns = map (\<lambda>i. fdiv (fsub (prices ! i) (prices ! (i - 1))) (prices ! (i - 1)))
                      [1 ..< length prices];
          mean = fdiv (reduce_sum64 returns) (real (length returns));
          variance = fdiv (foldl (\<lambda>sum ret. fadd sum (fpow2 (fsub ret mean))) 0 returns)
                       (real (length returns))
      in fmul (fsqrt variance) 100)"

subsection \<open>Support and resistance, simplified engine\<close>

record level =
  type :: string
  price :: real
  strength :: string

definition lookback :: nat where
  "lookback = 10"

text \<open>
  The two inner loops over \<open>j = i - lookback, \<dots>, i + lookback\<close>, given the list of the
  remaining values of \<open>j\<close>. Each returns the levels it pushes: \<open>break\<close> ends the loop with
  nothing more pushed, and reaching \<open>j = i + lookback\<close> without a break pushes one level.
\<close>

fun support_scan :: "real list \<Rightarrow> nat \<Rightarrow> real \<Rightarrow> nat list \<Rightarrow> level list" where
  "support_scan prices i current [] = []"
| "support_scan prices i current (j # js) =
     (if j \<noteq> i \<and> prices ! j \<le> current then []
      else (if j = i + lookback
            then [\<lparr>type = ''support'', price = current, strength = ''medium''\<rparr>] else [])
           @ support_scan prices i current js)"

fun resistance_scan :: "real list \<Rightarrow> nat \<Rightarrow> real \<Rightarrow> nat list \<Rightarrow> level list" where
  "resistance_scan prices i current [] = []"
| "resistance_scan prices i current (j # js) =
     (if j \<noteq> i \<and> prices ! j \<ge> current then []
      else (if j = i + lookback
            then [\<lparr>type = ''resistance'', price = current, strength = ''medium''\<rparr>] else [])
           @ resistance_scan prices i current js)"

text \<open>The levels pushed by one iteration of the outer loop, support check first.\<close>

definition levels_at :: "real list \<Rightarrow> nat \<Rightarrow> level list" where
  "levels_at prices i =
     (let current = prices ! i
      in support_scan prices i current [i - lookback ..< i + lookback + 1]
         @ resistance_scan prices i current [i - lookback ..< i + lookback + 1])"

text \<open>All levels pushed by the outer loop, \<open>i\<close> from \<open>lookback\<close> to
  \<open>length - lookback - 1\<close>, in push order.\<close>

definition detected_levels :: "real list \<Rightarrow> level list" where
  "detected_levels prices =
     concat (map (levels_at prices) [lookback ..< length prices - lookback])"

definition calculateSupportResistance :: "real list \<Rightarrow> level list" where
  "calculateSupportResistance prices = slice_last (detected_levels prices) 10"

subsection \<open>Support and resistance, gateway engine\<close>

definition gw_lookback :: nat where
  "gw_lookback = 20"

definition gw_levels_at :: "real list \<Rightarrow> nat \<Rightarrow> level list" where
  "gw_levels_at prices i =
     (let subset = slice prices (i - gw_lookback) (i + gw_lookback);
          current = prices ! i;
          isSupport = (length (filter (\<lambda>p. p < current) subset) \<le> 2);
          isResistance = (length (filter (\<lambda>p. p > current) subset) \<le> 2)
      in (if isSupport
          then [\<lparr>type = ''support'', price = current, strength = ''medium''\<rparr>] else [])
         @ (if isResistance
            then [\<lparr>type = ''resistance'', price = current, strength = ''medium''\<rparr>] else []))"

definition gw_detected_levels :: "real list \<Rightarrow> level list" where
  "gw_detected_levels prices =
     concat (map (gw_levels_at prices) [gw_lookback ..< length prices - gw_lookback])"

definition gw_calculateSupportResistance :: "real list \<Rightarrow> level list" where
  "gw_calculateSupportResistance prices = slice_last (gw_detected_levels prices) 10"

subsection \<open>The technical snapshot of the simplified engine\<close>

text \<open>A field read past the end of an empty result array is \<open>undefined\<close>; it is \<open>None\<close> here.
  Each element of \<open>prices\<close> is a pair \<open>[timestamp, price]\<close>.\<close>

record technicals =
  sma_20 :: "real option"
  sma_50 :: "real option"
  rsi :: "real option"
  bollinger_bands :: "bands option"
  support_resistance :: "level list"
  price_change_24h :: real
  volatility :: real

definition calculateSimpleTechnicals :: "(real \<times> real) list \<Rightarrow> technicals option" where
  "calculateSimpleTechnicals prices =
     (let closePrices = map snd prices;
          len = length closePrices
      in if len < 20 then None
         else
           (let sma_20 = calculateSMA closePrices 20;
                sma_50 = calculateSMA closePrices 50;
                rsi = calculateRSI closePrices 14;
                bb = calculateBollingerBands closePrices 20 2;
                supportResistance = calculateSupportResistance closePrices
            in Some
                 \<lparr>sma_20 = last_elem sma_20,
                  sma_50 = last_elem sma_50,
                  rsi = last_elem rsi,
                  bollinger_bands = last_elem bb,
                  support_resistance = supportResistance,
                  price_change_24h =
                    fmul (fdiv (fsub (closePrices ! (len - 1)) (closePrices ! (len - 2)))
                            (closePrices ! (len - 2))) 100,
                  volatility = calculateVolatility closePrices\<rparr>))"

subsection \<open>Composite prediction\<close>

text \<open>The fields of the \<open>weights\<close> object carry the prefix \<open>w_\<close>: \<open>sentiment\<close> is also the name
  of a parameter.\<close>

record weights_rec =
  w_technical :: real
  w_fundamental :: real
  w_sentiment :: real
  w_market_structure :: real

record sentiment_in =
  score :: real

record market_structure_in =
  liquidityScore :: real
  institutionalInterest :: string

text \<open>A price target is a number or the string \<open>'N/A'\<close>.\<close>

datatype target = Price real | NA

record price_targets_rec =
  support :: target
  resistance :: target

record prediction =
  direction :: string
  confidence :: real
  timeframe :: string
  price_targets :: price_targets_rec
  risk_level :: string

text \<open>The local constant \<open>weights\<close> of \<open>generateGodPrediction\<close>; the function has no weight
  parameter.\<close>

definition weights :: weights_rec where
  "weights =
     \<lparr>w_technical = fl 0.4, w_fundamental = fl 0.3, w_sentiment = fl 0.2,
      w_market_structure = fl 0.1\<rparr>"

text \<open>\<open>technicals && technicals.rsi\<close> is truthy for a snapshot whose \<open>rsi\<close> is a number other
  than 0; otherwise the score keeps its initial 0.5.\<close>

definition technicalScore :: "technicals option \<Rightarrow> real" where
  "technicalScore technicals =
     (case technicals of
        None \<Rightarrow> 0.5
      | Some t \<Rightarrow>
          (case rsi t of
             None \<Rightarrow> 0.5
           | Some r \<Rightarrow>
               if r = 0 then 0.5
               else if r < 30 then fl 0.8 else if r > 70 then fl 0.2 else 0.5))"

definition fundamentalScore :: "market_structure_in \<Rightarrow> real" where
  "fundamentalScore marketStructure =
     (if liquidityScore marketStructure > fl 0.1 then fl 0.7 else fl 0.4)"

definition sentimentScore :: "sentiment_in \<Rightarrow> real" where
  "sentimentScore sentiment = (if score sentiment > 0 then fl 0.7 else fl 0.3)"

definition structureScore :: "market_structure_in \<Rightarrow> real" where
  "structureScore marketStructure =
     (if institutionalInterest marketStructure = ''high'' then fl 0.8 else 0.5)"

text \<open>The expression of \<open>finalScore\<close>: four rounded products, added from left to right.\<close>

definition weighted_sum :: "real \<Rightarrow> real \<Rightarrow> real \<Rightarrow> real \<Rightarrow> real" where
  "weighted_sum tScore fScore sScore mScore =
     fadd
       (fadd
          (fadd (fmul tScore (w_technical weights)) (fmul fScore (w_fundamental weights)))
          (fmul sScore (w_sentiment weights)))
       (fmul mScore (w_market_structure weights))"

text \<open>\<open>x || 'N/A'\<close>: the number unless it is missing or 0.\<close>

definition or_NA :: "real option \<Rightarrow> target" where
  "or_NA x = (case x of None \<Rightarrow> NA | Some v \<Rightarrow> if v = 0 then NA else Price v)"

definition targets_of :: "technicals option \<Rightarrow> price_targets_rec" where
  "targets_of technicals =
     (let bb = (case technicals of None \<Rightarrow> None | Some t \<Rightarrow> bollinger_bands t)
      in \<lparr>support = or_NA (map_option lower bb), resistance = or_NA (map_option upper bb)\<rparr>)"

text \<open>The \<open>prediction\<close> object literal, from the final score and the price targets.\<close>

definition prediction_of :: "real \<Rightarrow> price_targets_rec \<Rightarrow> prediction" where
  "prediction_of finalScore targets =
     \<lparr>direction =
        (if finalScore > fl 0.6 then ''BULLISH''
         else if finalScore < fl 0.4 then ''BEARISH'' else ''NEUTRAL''),
      confidence = fmul \<bar>fsub finalScore 0.5\<bar> 200,
      timeframe = ''24h-7d'',
      price_targets = targets,
      risk_level =
        (if finalScore > fl 0.7 \<or> finalScore < fl 0.3 then ''HIGH'' else ''MEDIUM'')\<rparr>"

text \<open>The argument \<open>fundamentals\<close> is never read.\<close>

definition finalScore :: "technicals option \<Rightarrow> sentiment_in \<Rightarrow> market_structure_in \<Rightarrow> real" where
  "finalScore technicals sentiment marketStructure =
     weighted_sum (technicalScore technicals) (fundamentalScore marketStructure)
       (sentimentScore sentiment) (structureScore marketStructure)"

definition generateGodPrediction ::
  "technicals option \<Rightarrow> 'f \<Rightarrow> sentiment_in \<Rightarrow> market_structure_in \<Rightarrow> prediction" where
  "generateGodPrediction technicals fundamentals sentiment marketStructure =
     prediction_of (finalScore technicals sentiment marketStructure) (targets_of technicals)"

subsection \<open>Composite prediction, gateway engine\<close>

text \<open>The gateway passes the indicator library's arrays; the function reads the last RSI
  value (\<open>|| 50\<close>: 50 when missing or 0) and the last band.\<close>

record gw_technicals =
  gw_rsi :: "real list"
  gw_bb :: "bands list"

definition gw_latestRSI :: "gw_technicals \<Rightarrow> real" where
  "gw_latestRSI technicals =
     (case last_elem (gw_rsi technicals) of
        None \<Rightarrow> 50
      | Some r \<Rightarrow> if r = 0 then 50 else r)"

definition gw_technicalScore :: "gw_technicals \<Rightarrow> real" where
  "gw_technicalScore technicals =
     (let latestRSI = gw_latestRSI technicals
      in if latestRSI < 30 then fl 0.8 else if latestRSI > 70 then fl 0.2 else 0.5)"

definition gw_finalScore :: "gw_technicals \<Rightarrow> sentiment_in \<Rightarrow> market_structure_in \<Rightarrow> real" where
  "gw_finalScore technicals sentiment marketStructure =
     weighted_sum (gw_technicalScore technicals) (fundamentalScore marketStructure)
       (sentimentScore sentiment) (structureScore marketStructure)"

definition gw_targets_of :: "gw_technicals \<Rightarrow> price_targets_rec" where
  "gw_targets_of technicals =
     (let bb = last_elem (gw_bb technicals)
      in \<lparr>support = or_NA (map_option lower bb), resistance = or_NA (map_option upper bb)\<rparr>)"

definition gw_generateGodPrediction ::
  "gw_technicals \<Rightarrow> 'f \<Rightarrow> sentiment_in \<Rightarrow> market_structure_in \<Rightarrow> prediction" where
  "gw_generateGodPrediction technicals fundamentals sentiment marketStructure =
     prediction_of (gw_finalScore technicals sentiment marketStructure) (gw_targets_of technicals)"

section \<open>Properties\<close>

subsection \<open>Array primitives\<close>

lemma foldl_plus_start: "foldl (\<lambda>a b. a + b) (s::real) xs = s + sum_list xs"
  by (induction xs arbitrary: s) simp_all

lemma reduce_sum_sum_list: "reduce_sum xs = sum_list xs"
  by (simp add: reduce_sum_def foldl_plus_start)

subsection \<open>Binary64 arithmetic\<close>

lemma rne_of_int: "rne (of_int n) = n"
  by (simp add: rne_def)

lemma rne_range: "\<lfloor>x\<rfloor> \<le> rne x \<and> rne x \<le> \<lfloor>x\<rfloor> + 1"
  by (simp add: rne_def Let_def)

lemma rne_mono:
  assumes "x \<le> y"
  shows "rne x \<le> rne y"
proof (cases "\<lfloor>x\<rfloor> = \<lfloor>y\<rfloor>")
  case True
  then show ?thesis using assms by (auto simp: rne_def Let_def)
next
  case False
  then have "\<lfloor>x\<rfloor> < \<lfloor>y\<rfloor>" using floor_mono [OF assms] by simp
  then show ?thesis using rne_range [of x] rne_range [of y] by linarith
qed

lemma rne_err: "\<bar>of_int (rne x) - x\<bar> \<le> 1 / 2"
proof -
  have "of_int \<lfloor>x\<rfloor> \<le> x" "x < of_int \<lfloor>x\<rfloor> + 1" by linarith+
  then show ?thesis by (auto simp: rne_def Let_def)
qed

lemma rne_minus: "rne (- x) = - rne x"
proof (cases "x \<in> \<int>")
  case True
  then obtain n where "x = of_int n" by (auto elim: Ints_cases)
  then have "- x = of_int (- n)" by simp
  then show ?thesis using \<open>x = of_int n\<close> rne_of_int by metis
next
  case False
  then have "x \<noteq> of_int \<lfloor>x\<rfloor>" by (metis Ints_of_int)
  then have f: "\<lfloor>- x\<rfloor> = - \<lfloor>x\<rfloor> - 1"
    by (simp add: floor_minus ceiling_altdef)
  have "of_int \<lfloor>x\<rfloor> \<le> x" "x < of_int \<lfloor>x\<rfloor> + 1" by linarith+
  then show ?thesis by (auto simp: rne_def Let_def f)
qed

lemma ilog2_bounds:
  assumes "0 < x"
  shows "2 powi (ilog2 x) \<le> x \<and> x < 2 powi (ilog2 x + 1)"
proof (cases "1 \<le> x")
  case True
  define n where "n = \<lfloor>x\<rfloor>"
  have n: "0 < n" using True by (simp add: n_def)
  have b: "1 \<le> bitlen n" using n by (simp add: bitlen_alt_def)
  have "2 ^ nat (bitlen n - 1) \<le> n" "n < 2 ^ nat (bitlen n)"
    using bitlen_bounds [OF n] by simp_all
  then have "real_of_int (2 ^ nat (bitlen n - 1)) \<le> real_of_int n"
    and "real_of_int (n + 1) \<le> real_of_int (2 ^ nat (bitlen n))"
    by (simp_all only: of_int_le_iff)
  then have lo: "2 ^ nat (bitlen n - 1) \<le> real_of_int n"
    and hi: "real_of_int n + 1 \<le> 2 ^ nat (bitlen n)"
    by simp_all
  have "real_of_int n \<le> x" "x < real_of_int n + 1" unfolding n_def by linarith+
  then have "2 ^ nat (bitlen n - 1) \<le> x" "x < 2 ^ nat (bitlen n)" using lo hi by linarith+
  moreover have "(2::real) powi (bitlen n - 1) = 2 ^ nat (bitlen n - 1)"
    using b by (simp add: power_int_def)
  moreover have "(2::real) powi (bitlen n - 1 + 1) = 2 ^ nat (bitlen n)"
    using b by (simp add: power_int_def)
  ultimately show ?thesis using True by (simp add: ilog2_def n_def)
next
  case False
  define y where "y = 1 / x"
  have y: "1 < y" using False assms by (simp add: y_def)
  define m where "m = \<lceil>y\<rceil> - 1"
  have m: "0 < m" using y by (simp add: m_def)
  define b where "b = bitlen m"
  have b: "1 \<le> b" using m by (simp add: b_def bitlen_alt_def)
  have "2 ^ nat (b - 1) \<le> m" "m < 2 ^ nat b"
    using bitlen_bounds [OF m] by (simp_all add: b_def)
  then have "real_of_int (2 ^ nat (b - 1)) \<le> real_of_int m"
    and "real_of_int (m + 1) \<le> real_of_int (2 ^ nat b)"
    by (simp_all only: of_int_le_iff)
  then have lo: "2 ^ nat (b - 1) \<le> real_of_int m"
    and hi: "real_of_int m + 1 \<le> 2 ^ nat b"
    by simp_all
  have "real_of_int m < y" "y \<le> real_of_int m + 1" unfolding m_def by linarith+
  then have ylo: "2 ^ nat (b - 1) < y" and yhi: "y \<le> 2 ^ nat b" using lo hi by linarith+
  have x: "x = 1 / y" using assms by (simp add: y_def)
  have "1 / 2 ^ nat b \<le> x"
    unfolding x using yhi y by (simp add: frac_le)
  moreover have "x < 1 / 2 ^ nat (b - 1)"
    unfolding x using ylo by (simp add: frac_less2)
  moreover have "(2::real) powi (- b) = 1 / 2 ^ nat b"
    using b by (simp add: power_int_def field_simps)
  moreover have "(2::real) powi (- b + 1) = 1 / 2 ^ nat (b - 1)"
  proof -
    have "- b + 1 = - (b - 1)" by simp
    then show ?thesis using b by (simp add: power_int_def field_simps nat_diff_distrib)
  qed
  ultimately show ?thesis using False by (simp add: ilog2_def y_def m_def b_def)
qed

lemma ilog2_unique:
  assumes "2 powi e \<le> x" and "x < 2 powi (e + 1)"
  shows "ilog2 x = e"
proof -
  have "0 < x" using assms(1) zero_less_power_int [of "2::real" e] by linarith
  then have b: "2 powi (ilog2 x) \<le> x" "x < 2 powi (ilog2 x + 1)"
    using ilog2_bounds by blast+
  have mono: "(2::real) powi i \<le> 2 powi j" if "i \<le> j" for i j :: int
    using that by (rule power_int_increasing) simp
  have "(2::real) powi e < 2 powi (ilog2 x + 1)" using assms(1) b(2) by linarith
  then have "e < ilog2 x + 1" using mono [of "ilog2 x + 1" e] by linarith
  moreover have "(2::real) powi (ilog2 x) < 2 powi (e + 1)" using assms(2) b(1) by linarith
  then have "ilog2 x < e + 1" using mono [of "e + 1" "ilog2 x"] by linarith
  ultimately show ?thesis by simp
qed

lemma powi_split_hi: "(2::real) powi (e + 1) = 2 ^ 53 * 2 powi (e - 52)"
proof -
  have eq: "e + 1 = 53 + (e - 52)" by simp
  have "(2::real) powi (53 + (e - 52)) = 2 powi 53 * 2 powi (e - 52)"
    by (rule power_int_add) simp
  then show ?thesis unfolding eq by simp
qed

lemma powi_split_lo: "(2::real) powi e = 2 ^ 52 * 2 powi (e - 52)"
proof -
  have "(2::real) powi (52 + (e - 52)) = 2 powi 52 * 2 powi (e - 52)"
    by (rule power_int_add) simp
  then show ?thesis by simp
qed

lemma powi_mono: "i \<le> j \<Longrightarrow> (2::real) powi i \<le> 2 powi j"
  by (rule power_int_increasing) simp_all

lemma fl_zero: "fl 0 = 0"
  by (simp add: fl_def)

lemma fl_minus: "fl (- x) = - fl x"
  by (simp add: fl_def Let_def rne_minus)

lemma fl_pos:
  assumes "0 < x"
  shows "fl x = of_int (rne (x / 2 powi (max (ilog2 x) (- 1022) - 52)))
                  * 2 powi (max (ilog2 x) (- 1022) - 52)"
  using assms by (simp add: fl_def Let_def)

lemma fl_pos_bounds:
  assumes "0 < x"
  shows "0 \<le> fl x" and "fl x \<le> 2 powi (max (ilog2 x) (- 1022) + 1)"
    and "- 1022 \<le> ilog2 x \<Longrightarrow> 2 powi (ilog2 x) \<le> fl x"
proof -
  define e where "e = max (ilog2 x) (- 1022)"
  define u :: real where "u = 2 powi (e - 52)"
  have u: "0 < u" by (simp add: u_def zero_less_power_int)
  have f: "fl x = of_int (rne (x / u)) * u"
    using fl_pos [OF assms] by (simp add: e_def u_def)
  have "0 \<le> x / u" using assms u by simp
  then have "rne 0 \<le> rne (x / u)" by (rule rne_mono)
  then have "0 \<le> rne (x / u)" using rne_of_int [of 0] by simp
  then show "0 \<le> fl x" using u by (simp add: f)
  have "x < 2 powi (ilog2 x + 1)" using ilog2_bounds [OF assms] by simp
  also have "\<dots> \<le> 2 powi (e + 1)" by (rule powi_mono) (simp add: e_def)
  finally have "x < 2 ^ 53 * u" by (simp add: powi_split_hi u_def)
  then have "x / u \<le> of_int (2 ^ 53)" using u by (simp add: field_simps)
  then have "rne (x / u) \<le> rne (of_int (2 ^ 53))" by (rule rne_mono)
  then have "rne (x / u) \<le> 2 ^ 53" by (simp only: rne_of_int)
  then have "real_of_int (rne (x / u)) \<le> 2 ^ 53"
    by (metis of_int_le_iff of_int_numeral of_int_power)
  then have "fl x \<le> 2 ^ 53 * u" using u by (simp add: f)
  then show "fl x \<le> 2 powi (max (ilog2 x) (- 1022) + 1)"
    by (simp add: powi_split_hi u_def e_def)
  show "2 powi (ilog2 x) \<le> fl x" if n: "- 1022 \<le> ilog2 x"
  proof -
    have e: "e = ilog2 x" using n by (simp add: e_def)
    have "2 ^ 52 * u \<le> x"
      using ilog2_bounds [OF assms] powi_split_lo [of "ilog2 x"] by (simp add: u_def e)
    then have "of_int (2 ^ 52) \<le> x / u" using u by (simp add: field_simps)
    then have "rne (of_int (2 ^ 52)) \<le> rne (x / u)" by (rule rne_mono)
    then have "2 ^ 52 \<le> rne (x / u)" by (simp only: rne_of_int)
    then have "2 ^ 52 \<le> real_of_int (rne (x / u))"
      by (metis of_int_le_iff of_int_numeral of_int_power)
    then have "2 ^ 52 * u \<le> fl x" using u by (simp add: f)
    then show ?thesis using powi_split_lo [of "ilog2 x"] by (simp add: u_def e)
  qed
qed

lemma ilog2_mono:
  assumes "0 < x" and "x \<le> y"
  shows "ilog2 x \<le> ilog2 y"
proof -
  have "2 powi (ilog2 x) \<le> x" using ilog2_bounds [OF assms(1)] by simp
  also have "x \<le> y" by fact
  also have "y < 2 powi (ilog2 y + 1)" using ilog2_bounds [of y] assms by simp
  finally have "(2::real) powi (ilog2 x) < 2 powi (ilog2 y + 1)" .
  then show ?thesis using powi_mono [of "ilog2 y + 1" "ilog2 x"] by linarith
qed

lemma fl_mono_pos:
  assumes "0 < x" and "x \<le> y"
  shows "fl x \<le> fl y"
proof -
  have y: "0 < y" using assms by simp
  define ex where "ex = max (ilog2 x) (- 1022)"
  define ey where "ey = max (ilog2 y) (- 1022)"
  have le: "ex \<le> ey" using ilog2_mono [OF assms] by (simp add: ex_def ey_def)
  show ?thesis
  proof (cases "ex = ey")
    case True
    define u :: real where "u = 2 powi (ex - 52)"
    have u: "0 < u" by (simp add: u_def zero_less_power_int)
    have "x / u \<le> y / u" using assms(2) u by (simp add: divide_right_mono)
    then have "rne (x / u) \<le> rne (y / u)" by (rule rne_mono)
    then have "real_of_int (rne (x / u)) * u \<le> real_of_int (rne (y / u)) * u"
      using u by simp
    then show ?thesis
      using fl_pos [OF assms(1)] fl_pos [OF y] True by (simp add: ex_def ey_def u_def)
  next
    case False
    then have lt: "ex < ey" using le by simp
    then have n: "- 1022 \<le> ilog2 y" and ey: "ey = ilog2 y"
      by (auto simp: ex_def ey_def max_def split: if_splits)
    have "fl x \<le> 2 powi (ex + 1)" using fl_pos_bounds(2) [OF assms(1)] by (simp add: ex_def)
    also have "\<dots> \<le> 2 powi ey" using lt by (intro powi_mono) simp
    also have "\<dots> \<le> fl y" using fl_pos_bounds(3) [OF y n] by (simp add: ey)
    finally show ?thesis .
  qed
qed

lemma fl_nonneg: "0 \<le> x \<Longrightarrow> 0 \<le> fl x"
  using fl_pos_bounds(1) [of x] by (cases "x = 0") (simp_all add: fl_zero)

lemma fl_mono:
  assumes "x \<le> y"
  shows "fl x \<le> fl y"
proof -
  consider "0 < x" | "x \<le> 0" "0 \<le> y" | "y < 0" by linarith
  then show ?thesis
  proof cases
    case 1
    then show ?thesis using assms by (rule fl_mono_pos)
  next
    case 2
    have "0 \<le> fl (- x)" using 2(1) by (intro fl_nonneg) simp
    then have "fl x \<le> 0" by (simp add: fl_minus)
    also have "0 \<le> fl y" using 2(2) by (rule fl_nonneg)
    finally show ?thesis .
  next
    case 3
    have "fl (- y) \<le> fl (- x)" using 3 assms by (intro fl_mono_pos) simp_all
    then show ?thesis by (simp add: fl_minus)
  qed
qed

lemma fl_fixed_lt:
  assumes "0 < n" and "n < 2 ^ 53" and "- 1074 \<le> k"
  shows "fl (of_int n * 2 powi k) = of_int n * 2 powi k"
proof -
  define v :: real where "v = of_int n * 2 powi k"
  define b where "b = bitlen n"
  have p: "(0::real) < 2 powi k" by (simp add: zero_less_power_int)
  have v: "0 < v" using assms(1) p by (simp add: v_def)
  have b: "1 \<le> b" using assms(1) by (simp add: b_def bitlen_alt_def)
  have bb: "2 ^ nat (b - 1) \<le> n" "n < 2 ^ nat b"
    using bitlen_bounds [OF assms(1)] by (simp_all add: b_def)
  have lt: "(2::int) ^ nat (b - 1) < 2 ^ 53" using bb(1) assms(2) by linarith
  have "nat (b - 1) < 53" by (rule power_less_imp_less_exp [OF _ lt]) simp
  then have b53: "b \<le> 53" by simp
  have "real_of_int (2 ^ nat (b - 1)) \<le> real_of_int n"
    and "real_of_int n < real_of_int (2 ^ nat b)"
    using bb by (simp_all only: of_int_le_iff of_int_less_iff)
  then have "2 powi (b - 1) \<le> real_of_int n" and "real_of_int n < 2 powi b"
    using b by (simp_all add: power_int_def)
  then have "2 powi (b - 1) * 2 powi k \<le> v" and "v < 2 powi b * 2 powi k"
    using p by (simp_all add: v_def)
  moreover have "(2::real) powi (b - 1 + k) = 2 powi (b - 1) * 2 powi k"
    by (rule power_int_add) simp
  moreover have "(2::real) powi (b - 1 + k + 1) = 2 powi b * 2 powi k"
  proof -
    have "b - 1 + k + 1 = b + k" by simp
    moreover have "(2::real) powi (b + k) = 2 powi b * 2 powi k" by (rule power_int_add) simp
    ultimately show ?thesis by simp
  qed
  ultimately have "ilog2 v = b - 1 + k" by (intro ilog2_unique) simp_all
  define e where "e = max (b - 1 + k) (- 1022)"
  define j where "j = k + 52 - e"
  have j: "0 \<le> j" using b53 assms(3) by (simp add: j_def e_def)
  have k: "k = j + (e - 52)" by (simp add: j_def)
  have "(2::real) powi k = 2 powi j * 2 powi (e - 52)"
    unfolding k by (rule power_int_add) simp
  then have vk: "v = of_int n * 2 powi j * 2 powi (e - 52)" by (simp add: v_def)
  have "(2::real) powi j = of_int (2 ^ nat j)" using j by (simp add: power_int_def)
  then have "of_int n * 2 powi j = real_of_int (n * 2 ^ nat j)" by simp
  then have q: "v / 2 powi (e - 52) = real_of_int (n * 2 ^ nat j)"
    using vk zero_less_power_int [of "2::real" "e - 52"] by simp
  have "fl v = of_int (rne (v / 2 powi (e - 52))) * 2 powi (e - 52)"
    using fl_pos [OF v] \<open>ilog2 v = b - 1 + k\<close> by (simp add: e_def)
  also have "\<dots> = real_of_int (n * 2 ^ nat j) * 2 powi (e - 52)"
    by (simp only: q rne_of_int)
  also have "\<dots> = v"
    using q zero_less_power_int [of "2::real" "e - 52"] by (simp add: field_simps)
  finally show ?thesis by (simp add: v_def)
qed

lemma fl_fixed:
  assumes "0 \<le> n" and "n \<le> 2 ^ 53" and "- 1074 \<le> k"
  shows "fl (of_int n * 2 powi k) = of_int n * 2 powi k"
proof -
  consider "n = 0" | "0 < n" "n < 2 ^ 53" | "n = 2 ^ 53" using assms by linarith
  then show ?thesis
  proof cases
    case 1
    then show ?thesis by (simp add: fl_zero)
  next
    case 2
    then show ?thesis using assms(3) by (rule fl_fixed_lt)
  next
    case 3
    have "(2::real) powi (k + 1) = 2 powi k * 2" by (rule power_int_add_1) simp
    then have "real_of_int n * 2 powi k = of_int (2 ^ 52) * 2 powi (k + 1)"
      by (simp add: 3)
    moreover have "fl (of_int (2 ^ 52) * 2 powi (k + 1)) = of_int (2 ^ 52) * 2 powi (k + 1)"
      using assms(3) by (intro fl_fixed_lt) simp_all
    ultimately show ?thesis by simp
  qed
qed

lemma fl_repr:
  "\<exists>m k. fl x = of_int m * 2 powi k \<and> \<bar>m\<bar> \<le> 2 ^ 53 \<and> - 1074 \<le> k"
proof -
  have pos: "\<exists>m k. fl x = of_int m * 2 powi k \<and> 0 \<le> m \<and> m \<le> 2 ^ 53 \<and> - 1074 \<le> k"
    if x: "0 < x" for x
  proof -
    define e where "e = max (ilog2 x) (- 1022)"
    define u :: real where "u = 2 powi (e - 52)"
    define m where "m = rne (x / u)"
    have u: "0 < u" by (simp add: u_def zero_less_power_int)
    have f: "fl x = of_int m * u" using fl_pos [OF x] by (simp add: e_def u_def m_def)
    have "0 \<le> fl x" using fl_pos_bounds(1) [OF x] .
    then have "0 \<le> real_of_int m" using u by (simp add: f zero_le_mult_iff)
    then have m0: "0 \<le> m" by simp
    have "fl x \<le> 2 powi (e + 1)" using fl_pos_bounds(2) [OF x] by (simp add: e_def)
    then have "real_of_int m * u \<le> 2 ^ 53 * u" by (simp add: f powi_split_hi u_def)
    then have "real_of_int m \<le> real_of_int (2 ^ 53)" using u by simp
    then have m1: "m \<le> 2 ^ 53" by (simp only: of_int_le_iff)
    have "- 1074 \<le> e - 52" by (simp add: e_def)
    then show ?thesis using f m0 m1 unfolding u_def by blast
  qed
  consider "0 < x" | "x = 0" | "0 < - x" by linarith
  then show ?thesis
  proof cases
    case 1
    then obtain m k where "fl x = of_int m * 2 powi k" "0 \<le> m" "m \<le> 2 ^ 53" "- 1074 \<le> k"
      using pos by blast
    then have "fl x = of_int m * 2 powi k \<and> \<bar>m\<bar> \<le> 2 ^ 53 \<and> - 1074 \<le> k" by simp
    then show ?thesis by blast
  next
    case 2
    have "fl x = of_int 0 * 2 powi 0 \<and> \<bar>0::int\<bar> \<le> 2 ^ 53 \<and> - 1074 \<le> (0::int)"
      by (simp add: 2 fl_zero)
    then show ?thesis by blast
  next
    case 3
    then obtain m k where "fl (- x) = of_int m * 2 powi k" "0 \<le> m" "m \<le> 2 ^ 53" "- 1074 \<le> k"
      using pos by blast
    then have "fl x = of_int (- m) * 2 powi k \<and> \<bar>- m\<bar> \<le> 2 ^ 53 \<and> - 1074 \<le> k"
      by (simp add: fl_minus)
    then show ?thesis by blast
  qed
qed

lemma fl_idem: "fl (fl x) = fl x"
proof -
  obtain m k where r: "fl x = of_int m * 2 powi k" "\<bar>m\<bar> \<le> 2 ^ 53" "- 1074 \<le> k"
    using fl_repr by blast
  show ?thesis
  proof (cases "0 \<le> m")
    case True
    then show ?thesis using r fl_fixed [of m k] by simp
  next
    case False
    then have "fl (of_int (- m) * 2 powi k) = of_int (- m) * 2 powi k"
      using r by (intro fl_fixed) simp_all
    then have "fl (- (of_int m * 2 powi k)) = - (of_int m * 2 powi k)" by simp
    then show ?thesis using r(1) by (simp add: fl_minus)
  qed
qed

lemma fl_err: "\<bar>fl x - x\<bar> \<le> max (\<bar>x\<bar> / 2 ^ 53) (2 powi (- 1075))"
proof (cases "x = 0")
  case True
  then show ?thesis by (simp add: fl_zero)
next
  case False
  define e where "e = max (ilog2 \<bar>x\<bar>) (- 1022)"
  define u :: real where "u = 2 powi (e - 52)"
  have u: "0 < u" by (simp add: u_def zero_less_power_int)
  have f: "fl x = of_int (rne (x / u)) * u"
    using False by (simp add: fl_def Let_def e_def u_def)
  have "fl x - x = (of_int (rne (x / u)) - x / u) * u" using u by (simp add: f field_simps)
  then have "\<bar>fl x - x\<bar> = \<bar>of_int (rne (x / u)) - x / u\<bar> * u"
    using u by (simp add: abs_mult)
  also have "\<dots> \<le> 1 / 2 * u" using rne_err [of "x / u"] u by (intro mult_right_mono) simp_all
  finally have h: "\<bar>fl x - x\<bar> \<le> u / 2" by simp
  show ?thesis
  proof (cases "- 1022 \<le> ilog2 \<bar>x\<bar>")
    case True
    then have "e = ilog2 \<bar>x\<bar>" by (simp add: e_def)
    moreover have "2 powi (ilog2 \<bar>x\<bar>) \<le> \<bar>x\<bar>" using ilog2_bounds [of "\<bar>x\<bar>"] False by simp
    ultimately have "2 ^ 52 * u \<le> \<bar>x\<bar>" using powi_split_lo [of e] by (simp add: u_def)
    then have "u / 2 \<le> \<bar>x\<bar> / 2 ^ 53" by simp
    then have "\<bar>fl x - x\<bar> \<le> \<bar>x\<bar> / 2 ^ 53" using h by linarith
    then show ?thesis by (rule max.coboundedI1)
  next
    case False
    then have "e = - 1022" by (simp add: e_def)
    then have "u = 2 powi (- 1074)" by (simp add: u_def)
    moreover have "(2::real) powi (- 1074) = 2 powi (- 1075) * 2"
      using power_int_add_1 [of "2::real" "- 1075"] by simp
    ultimately have "u / 2 = 2 powi (- 1075)" by (simp only: nonzero_mult_div_cancel_right)
    then have "\<bar>fl x - x\<bar> \<le> 2 powi (- 1075)" using h by (simp only:)
    then show ?thesis by (rule max.coboundedI2)
  qed
qed

lemma rne_eqI:
  assumes "\<bar>y - of_int n\<bar> < 1 / 2 \<or> \<bar>y - of_int n\<bar> = 1 / 2 \<and> even n"
  shows "rne y = n"
proof (cases "of_int n \<le> y")
  case True
  then have "\<lfloor>y\<rfloor> = n" using assms by (intro floor_unique) linarith+
  then show ?thesis using assms True by (auto simp: rne_def Let_def)
next
  case False
  have "\<bar>y - of_int n\<bar> \<le> 1 / 2" using assms by linarith
  then have "real_of_int n - 1 \<le> y" "y < real_of_int n" using False by linarith+
  then have "real_of_int (n - 1) \<le> y" "y < real_of_int (n - 1) + 1" by simp_all
  then have "\<lfloor>y\<rfloor> = n - 1" by (rule floor_unique)
  then show ?thesis using assms False by (auto simp: rne_def Let_def)
qed

text \<open>Evaluation of \<open>fl\<close> at a given real \<open>x\<close> with \<open>2 ^ 52 \<le> |x| * 2 ^ k < 2 ^ 53\<close>, from
  the integer \<open>n\<close> nearest to \<open>x * 2 ^ k\<close>.\<close>

lemma fl_evalI:
  fixes n :: int and k :: nat
  assumes "2 ^ 52 \<le> \<bar>x * 2 ^ k\<bar>" and "\<bar>x * 2 ^ k\<bar> < 2 ^ 53" and "k \<le> 1074"
    and "\<bar>x * 2 ^ k - of_int n\<bar> < 1 / 2 \<or> \<bar>x * 2 ^ k - of_int n\<bar> = 1 / 2 \<and> even n"
    and "y = of_int n / 2 ^ k"
  shows "fl x = y"
proof -
  define z where "z = x * 2 ^ k"
  have r: "\<bar>z - of_int n\<bar> < 1 / 2 \<or> \<bar>z - of_int n\<bar> = 1 / 2 \<and> even n"
    using assms(4) by (simp add: z_def)
  have zb: "2 ^ 52 \<le> \<bar>z\<bar>" "\<bar>z\<bar> < 2 ^ 53" using assms(1,2) by (simp_all only: z_def)
  have x0: "x \<noteq> 0" using zb(1) by (auto simp: z_def)
  have az: "\<bar>z\<bar> = \<bar>x\<bar> * 2 ^ k" by (simp add: z_def abs_mult)
  have p: "(2::real) powi (- int k) = 1 / 2 ^ k"
    by (simp add: power_int_minus_divide)
  have q1: "(2::real) powi (52 - int k) = 2 ^ 52 / 2 ^ k"
  proof -
    have "(2::real) powi (52 + (- int k)) = 2 powi 52 * 2 powi (- int k)"
      by (rule power_int_add) simp
    then show ?thesis by (simp add: p)
  qed
  have q2: "(2::real) powi (52 - int k + 1) = 2 ^ 53 / 2 ^ k"
  proof -
    have "(2::real) powi (53 + (- int k)) = 2 powi 53 * 2 powi (- int k)"
      by (rule power_int_add) simp
    moreover have "52 - int k + 1 = 53 + (- int k)" by simp
    ultimately show ?thesis by (simp add: p)
  qed
  have "2 ^ 52 / 2 ^ k \<le> \<bar>x\<bar>" "\<bar>x\<bar> < 2 ^ 53 / 2 ^ k"
    using zb by (simp_all add: az field_simps)
  then have "ilog2 \<bar>x\<bar> = 52 - int k"
    by (intro ilog2_unique) (simp_all only: q1 q2)
  moreover have "- 1022 \<le> 52 - int k" using assms(3) by simp
  ultimately have e: "max (ilog2 \<bar>x\<bar>) (- 1022) = 52 - int k" by simp
  have "fl x = of_int (rne (x / 2 powi (- int k))) * 2 powi (- int k)"
    using x0 e by (simp add: fl_def Let_def)
  also have "x / 2 powi (- int k) = z" by (simp add: p z_def)
  also have "rne z = n" using r by (rule rne_eqI)
  finally show ?thesis by (simp add: p assms(5))
qed

text \<open>A real with at most 53 significant bits above \<open>2 ^ -1074\<close> is its own rounding.\<close>

lemma fl_exactI:
  fixes n :: int and k :: nat
  assumes "\<bar>n\<bar> \<le> 2 ^ 53" and "k \<le> 1074" and "x = of_int n / 2 ^ k"
  shows "fl x = x"
proof -
  have p: "(2::real) powi (- int k) = 1 / 2 ^ k"
    by (simp add: power_int_minus_divide)
  have k: "- 1074 \<le> - int k" using assms(2) by simp
  show ?thesis
  proof (cases "0 \<le> n")
    case True
    then have "fl (of_int n * 2 powi (- int k)) = of_int n * 2 powi (- int k)"
      using assms(1) k by (intro fl_fixed) simp_all
    then show ?thesis by (simp add: p assms(3))
  next
    case False
    then have "fl (of_int (- n) * 2 powi (- int k)) = of_int (- n) * 2 powi (- int k)"
      using assms(1) k by (intro fl_fixed) simp_all
    then have "fl (- x) = - x" by (simp add: p assms(3))
    then show ?thesis by (simp add: fl_minus)
  qed
qed

lemma fl_numeral [simp]: "numeral w \<le> (2::int) ^ 53 \<Longrightarrow> fl (numeral w) = numeral w"
  by (rule fl_exactI [where n = "numeral w" and k = 0]) simp_all

lemma fl_one [simp]: "fl 1 = 1"
  by (rule fl_exactI [where n = 1 and k = 0]) simp_all

lemma fl_numeral_half [simp]:
  "numeral w \<le> (2::int) ^ 53 \<Longrightarrow> fl (numeral w / 2) = numeral w / 2"
  by (rule fl_exactI [where n = "numeral w" and k = 1]) simp_all

lemma fl_numeral_quarter [simp]:
  "numeral w \<le> (2::int) ^ 53 \<Longrightarrow> fl (numeral w / 4) = numeral w / 4"
  by (rule fl_exactI [where n = "numeral w" and k = 2]) simp_all

lemma fl_half [simp]: "fl (1 / 2) = 1 / 2"
  by (rule fl_exactI [where n = 1 and k = 1]) simp_all

lemma fl_quarter [simp]: "fl (1 / 4) = 1 / 4"
  by (rule fl_exactI [where n = 1 and k = 2]) simp_all

lemma fl_uminus [simp]: "fl (- x) = - fl x"
  by (rule fl_minus)

lemma fl_0 [simp]: "fl 0 = 0"
  by (rule fl_zero)

lemma fl_abs: "fl \<bar>x\<bar> = \<bar>fl x\<bar>"
proof (cases "0 \<le> x")
  case True
  then show ?thesis by (simp add: fl_nonneg)
next
  case False
  then have "0 \<le> fl (- x)" by (intro fl_nonneg) simp
  then show ?thesis using False by (simp add: fl_minus)
qed

text \<open>Evaluation of \<open>Math.sqrt\<close> at a given real \<open>v\<close> with
  \<open>2 ^ 104 \<le> v * 4 ^ k < 2 ^ 106\<close>, from the integer \<open>n\<close> nearest to \<open>sqrt v * 2 ^ k\<close>.\<close>

lemma fsqrt_evalI:
  fixes n :: int and k :: nat
  assumes "2 ^ 104 \<le> v * 4 ^ k" and "v * 4 ^ k < 2 ^ 106" and "k \<le> 1074" and "0 \<le> n"
    and "(2 * of_int n - 1)\<^sup>2 < 4 * (v * 4 ^ k)" and "4 * (v * 4 ^ k) < (2 * of_int n + 1)\<^sup>2"
    and "y = of_int n / 2 ^ k"
  shows "fsqrt v = y"
proof -
  define s where "s = sqrt v * 2 ^ k"
  have h: "(of_int n - 1 / 2)\<^sup>2 < v * 4 ^ k" "v * 4 ^ k < (of_int n + 1 / 2)\<^sup>2"
    using assms(5,6) by (simp_all add: power2_eq_square algebra_simps)
  have "sqrt ((4::real) ^ k) = 2 ^ k"
  proof -
    have "(4::real) ^ k = (2 ^ k)\<^sup>2" by (simp add: power2_eq_square flip: power_mult_distrib)
    then show ?thesis by simp
  qed
  then have s: "s = sqrt (v * 4 ^ k)" by (simp add: s_def real_sqrt_mult)
  have "(2 ^ 52)\<^sup>2 \<le> v * 4 ^ k" using assms(1) by simp
  then have lo: "2 ^ 52 \<le> s" unfolding s by (rule real_le_rsqrt)
  have "v * 4 ^ k < (2 ^ 53)\<^sup>2" using assms(2) by simp
  then have hi: "s < 2 ^ 53" unfolding s by (intro real_less_lsqrt) simp_all
  have a: "of_int n - 1 / 2 < s" unfolding s using h(1) by (rule real_less_rsqrt)
  have "0 \<le> real_of_int n + 1 / 2" using assms(4) by simp
  then have b: "s < of_int n + 1 / 2" unfolding s using h(2) by (intro real_less_lsqrt)
  have "\<bar>s - of_int n\<bar> < 1 / 2" using a b by linarith
  then have "\<bar>sqrt v * 2 ^ k - of_int n\<bar> < 1 / 2
      \<or> \<bar>sqrt v * 2 ^ k - of_int n\<bar> = 1 / 2 \<and> even n"
    by (simp add: s_def)
  moreover have "2 ^ 52 \<le> \<bar>sqrt v * 2 ^ k\<bar>" "\<bar>sqrt v * 2 ^ k\<bar> < 2 ^ 53"
    using lo hi by (simp_all add: s_def)
  ultimately have "fl (sqrt v) = y" using assms(3,7) by (intro fl_evalI [where n = n and k = k])
  then show ?thesis by (simp add: fsqrt_def)
qed

lemma fsqrt_0 [simp]: "fsqrt 0 = 0"
  by (simp add: fsqrt_def)

lemma fsqrt_nonneg: "0 \<le> v \<Longrightarrow> 0 \<le> fsqrt v"
  unfolding fsqrt_def by (rule fl_nonneg) simp

subsection \<open>Relative strength index\<close>

lemma avgGain_nonneg: "0 \<le> avgGain changes period i"
proof -
  have "0 \<le> sum_list (window_gains changes period i)"
    by (rule sum_list_nonneg) (auto simp: window_gains_def)
  then show ?thesis
    by (simp add: avgGain_def Let_def reduce_sum_sum_list)
qed

lemma avgLoss_nonneg: "0 \<le> avgLoss changes period i"
proof -
  have "0 \<le> sum_list (window_losses changes period i)"
    by (rule sum_list_nonneg) (auto simp: window_losses_def)
  then show ?thesis
    by (simp add: avgLoss_def Let_def reduce_sum_sum_list)
qed

lemma rsi_of_rs_bounds:
  fixes rs :: real
  assumes "0 \<le> rs"
  shows "0 \<le> 100 - 100 / (1 + rs)" and "100 - 100 / (1 + rs) < 100"
proof -
  have pos: "0 < 1 + rs" using assms by simp
  have "100 / (1 + rs) \<le> 100"
    using assms pos by (simp add: divide_le_eq)
  then show "0 \<le> 100 - 100 / (1 + rs)" by simp
  have "0 < 100 / (1 + rs)" using pos by simp
  then show "100 - 100 / (1 + rs) < 100" by simp
qed

lemma rsi_at_bounds: "0 \<le> rsi_at changes period i \<and> rsi_at changes period i < 100"
proof -
  define rs where "rs = (if avgLoss changes period i = 0 then 100
                else avgGain changes period i / avgLoss changes period i)"
  have "0 \<le> rs"
    unfolding rs_def using avgGain_nonneg [of changes period i] avgLoss_nonneg [of changes period i]
    by simp
  then show ?thesis
    using rsi_of_rs_bounds [of rs] by (simp add: rsi_at_def Let_def rs_def)
qed

lemma calculateRSI_bounds:
  "x \<in> set (calculateRSI prices period) \<Longrightarrow> 0 \<le> x \<and> x < 100"
  by (auto simp: calculateRSI_def Let_def rsi_at_bounds)

lemma avgLoss_zero_iff:
  assumes "0 < period"
  shows "avgLoss changes period i = 0 \<longleftrightarrow> (\<forall>c \<in> set (slice changes (i - period) i). 0 \<le> c)"
proof
  assume z: "avgLoss changes period i = 0"
  show "\<forall>c \<in> set (slice changes (i - period) i). 0 \<le> c"
  proof (rule ccontr)
    assume "\<not> (\<forall>c \<in> set (slice changes (i - period) i). 0 \<le> c)"
    then obtain c where c: "c \<in> set (slice changes (i - period) i)" "c < 0" by force
    then have m: "\<bar>c\<bar> \<in> set (window_losses changes period i)"
      by (auto simp: window_losses_def)
    have nn: "\<forall>x \<in> set (window_losses changes period i). 0 \<le> x"
      by (auto simp: window_losses_def)
    have "\<bar>c\<bar> \<le> sum_list (window_losses changes period i)"
      using m nn by (simp add: member_le_sum_list)
    then have "0 < sum_list (window_losses changes period i)" using c(2) by simp
    moreover have "window_losses changes period i \<noteq> []" using m by auto
    ultimately show False
      using z assms by (simp add: avgLoss_def Let_def reduce_sum_sum_list)
  qed
next
  assume "\<forall>c \<in> set (slice changes (i - period) i). 0 \<le> c"
  then have "window_losses changes period i = []"
    by (auto simp: window_losses_def filter_empty_conv)
  then show "avgLoss changes period i = 0"
    by (simp add: avgLoss_def)
qed

lemma rsi_at_no_loss:
  assumes "0 < period" and "\<forall>c \<in> set (slice changes (i - period) i). 0 \<le> c"
  shows "rsi_at changes period i = 10000 / 101"
  using assms avgLoss_zero_iff [of period changes i] by (simp add: rsi_at_def)

lemma rsi_at_all_loss:
  assumes "0 < period" and "period \<le> i" and "i \<le> length changes"
    and "\<forall>c \<in> set (slice changes (i - period) i). c < 0"
  shows "rsi_at changes period i = 0"
proof -
  have ne: "slice changes (i - period) i \<noteq> []"
    using assms(1-3) by (simp add: slice_def)
  then obtain c where c: "c \<in> set (slice changes (i - period) i)" by (cases "slice changes (i - period) i") auto
  then have "c < 0" using assms(4) by blast
  then have "\<not> (\<forall>c \<in> set (slice changes (i - period) i). 0 \<le> c)" using c by force
  then have nz: "avgLoss changes period i \<noteq> 0"
    using avgLoss_zero_iff [OF assms(1)] by blast
  have "window_gains changes period i = []"
    using assms(4) by (auto simp: window_gains_def filter_empty_conv)
  then have "avgGain changes period i = 0" by (simp add: avgGain_def)
  then show ?thesis using nz by (simp add: rsi_at_def)
qed

lemma set_slice_subset: "set (slice xs s e) \<subseteq> set xs"
  unfolding slice_def by (meson set_drop_subset set_take_subset subset_trans)

lemma length_price_changes: "length (price_changes prices) = length prices - 1"
  by (simp add: price_changes_def)

lemma price_changes_falling:
  assumes "\<forall>k. Suc k < length prices \<longrightarrow> prices ! Suc k < prices ! k"
  shows "\<forall>c \<in> set (price_changes prices). c < 0"
proof
  fix c assume "c \<in> set (price_changes prices)"
  then obtain i where i: "1 \<le> i" "i < length prices" "c = prices ! i - prices ! (i - 1)"
    by (auto simp: price_changes_def)
  then have e: "Suc (i - 1) = i" by simp
  have "Suc (i - 1) < length prices \<longrightarrow> prices ! Suc (i - 1) < prices ! (i - 1)"
    using assms by blast
  then show "c < 0" using i e by simp
qed

lemma price_changes_rising:
  assumes "\<forall>k. Suc k < length prices \<longrightarrow> prices ! k < prices ! Suc k"
  shows "\<forall>c \<in> set (price_changes prices). 0 < c"
proof
  fix c assume "c \<in> set (price_changes prices)"
  then obtain i where i: "1 \<le> i" "i < length prices" "c = prices ! i - prices ! (i - 1)"
    by (auto simp: price_changes_def)
  then have e: "Suc (i - 1) = i" by simp
  have "Suc (i - 1) < length prices \<longrightarrow> prices ! (i - 1) < prices ! Suc (i - 1)"
    using assms by blast
  then show "0 < c" using i e by simp
qed

lemma last_elem_calculateRSI:
  assumes "period + 2 \<le> length prices"
  shows "last_elem (calculateRSI prices period) =
           Some (rsi_at (price_changes prices) period (length prices - 2))"
proof -
  have "length (calculateRSI prices period) = length prices - 1 - period"
    by (simp add: calculateRSI_def Let_def length_price_changes)
  then show ?thesis
    using assms
    by (auto simp: last_elem_def calculateRSI_def Let_def length_price_changes)
qed

lemma calculateRSI_falling_latest:
  assumes "0 < period" and "period + 2 \<le> length prices"
    and "\<forall>k. Suc k < length prices \<longrightarrow> prices ! Suc k < prices ! k"
  shows "last_elem (calculateRSI prices period) = Some 0"
proof -
  let ?cs = "price_changes prices"
  have "\<forall>c \<in> set (slice ?cs (length prices - 2 - period) (length prices - 2)). c < 0"
  proof
    fix c assume "c \<in> set (slice ?cs (length prices - 2 - period) (length prices - 2))"
    then have "c \<in> set ?cs" by (rule set_slice_subset [THEN subsetD])
    with price_changes_falling [OF assms(3)] show "c < 0" by blast
  qed
  then have "rsi_at ?cs period (length prices - 2) = 0"
    using assms(1,2) by (intro rsi_at_all_loss) (simp_all add: length_price_changes)
  then show ?thesis using last_elem_calculateRSI [OF assms(2)] by simp
qed

lemma calculateRSI_rising_latest:
  assumes "0 < period" and "period + 2 \<le> length prices"
    and "\<forall>k. Suc k < length prices \<longrightarrow> prices ! k < prices ! Suc k"
  shows "last_elem (calculateRSI prices period) = Some (10000 / 101)"
proof -
  let ?cs = "price_changes prices"
  have "\<forall>c \<in> set (slice ?cs (length prices - 2 - period) (length prices - 2)). 0 \<le> c"
  proof
    fix c assume "c \<in> set (slice ?cs (length prices - 2 - period) (length prices - 2))"
    then have "c \<in> set ?cs" by (rule set_slice_subset [THEN subsetD])
    with price_changes_rising [OF assms(3)] have "0 < c" by blast
    then show "0 \<le> c" by simp
  qed
  then have "rsi_at ?cs period (length prices - 2) = 10000 / 101"
    using assms(1) by (intro rsi_at_no_loss) simp_all
  then show ?thesis using last_elem_calculateRSI [OF assms(2)] by simp
qed

text \<open>
  Claim C1. A window with no loss has \<open>avgLoss = 0\<close>, and the contract asks for an RSI of
  exactly 100 there. The source substitutes \<open>rs = 100\<close>, so the value is
  \<open>100 - 100 / 101 = 10000 / 101\<close>, strictly below 100 (lemma \<open>rsi_at_no_loss\<close> for every
  such window). Evaluated on the 20 rising prices \<open>1, \<dots>, 20\<close> with period 14: all five
  outputs are \<open>10000 / 101\<close>.
\<close>

theorem calculateRSI_no_loss_window_value:
  "calculateRSI [1, 2, 3, 4, 5, 6, 7, 8, 9, 10, 11, 12, 13, 14, 15, 16, 17, 18, 19, 20] 14
     = [10000 / 101, 10000 / 101, 10000 / 101, 10000 / 101, 10000 / 101]"
  by code_simp

text \<open>
  Claim C5. Every RSI output lies in \<open>[0, 100]\<close> (lemma \<open>calculateRSI_bounds\<close>, which gives
  even \<open>< 100\<close>) and a strictly falling series ends at 0 (lemma
  \<open>calculateRSI_falling_latest\<close>), but a strictly rising series does not end at 100: on the
  100-sample uptrend \<open>price[i] = 100 + i\<close> the latest value is \<open>10000 / 101\<close>.
\<close>

theorem calculateRSI_uptrend_latest_value:
  "last_elem (calculateRSI (map (\<lambda>i. 100 + real i) [0 ..< 100]) 14) = Some (10000 / 101)"
  by (rule calculateRSI_rising_latest) simp_all

text \<open>
  The same expression in binary64: with \<open>rs = 100\<close> the source computes
  \<open>100 - 100 / (1 + 100)\<close>, which is 99.00990099009901 and below 100 as the exact value is.
\<close>

lemma fl_rsi_1 [fl_value]: "fl (100 / 101) = 1114752383012499 / 1125899906842624"
  by (rule fl_evalI [where n = "8918019064099992" and k = 53]) simp_all

lemma fl_rsi_2 [fl_value]: "fl (111475238301249901 / 1125899906842624) = 6967202393828119 / 70368744177664"
  by (rule fl_evalI [where n = "6967202393828119" and k = 46]) simp_all

lemma rsi_no_loss_binary64:
  "fsub 100 (fdiv 100 (fadd 1 100)) = 6967202393828119 / 70368744177664
   \<and> fsub 100 (fdiv 100 (fadd 1 100)) < 100"
  by (simp add: fsub_def fdiv_def fadd_def fl_value)

subsection \<open>Bollinger Bands\<close>

lemma length_calculateSMA: "length (calculateSMA prices period) = length prices - (period - 1)"
  by (simp add: calculateSMA_def)

lemma length_calculateBollingerBands:
  "length (calculateBollingerBands prices period multiplier) = length prices - (period - 1)"
  by (simp add: calculateBollingerBands_def Let_def length_calculateSMA)

lemma nth_calculateBollingerBands:
  assumes "i < length (calculateBollingerBands prices period multiplier)"
  shows "calculateBollingerBands prices period multiplier ! i
           = bb_at prices period multiplier (calculateSMA prices period) i"
  using assms by (simp add: calculateBollingerBands_def Let_def)

text \<open>The window of output position \<open>i\<close> is \<open>prices[i .. i + period - 1]\<close>, in the moving average
  and in the variance.\<close>

lemma bb_subset_window:
  assumes "0 < period"
  shows "bb_subset prices period i = take period (drop i prices)"
proof -
  have "i + period - 1 + 1 - period = i" "i + period - 1 + 1 - i = period"
    using assms by simp_all
  then show ?thesis by (simp add: bb_subset_def Let_def slice_def)
qed

lemma nth_calculateSMA:
  assumes "0 < period" and "i < length (calculateSMA prices period)"
  shows "calculateSMA prices period ! i
           = fl (foldl (\<lambda>a b. fl (a + b)) 0 (take period (drop i prices)) / real period)"
proof -
  have "period - 1 + i + 1 - period = i" "period - 1 + i + 1 - i = period"
    using assms(1) by simp_all
  then show ?thesis
    using assms(2)
    by (simp add: calculateSMA_def slice_def reduce_sum64_def fadd_def fdiv_def)
qed

lemma bb_at_window:
  fixes prices :: "real list" and period i :: nat and multiplier :: real
  defines "w \<equiv> take period (drop i prices)"
  defines "mean \<equiv> fl (foldl (\<lambda>a b. fl (a + b)) 0 w / real period)"
  defines "sd \<equiv>
    fl (sqrt (fl (foldl (\<lambda>s p. fl (s + fl (fl (p - mean) * fl (p - mean)))) 0 w / real period)))"
  assumes "0 < period" and "i < length (calculateBollingerBands prices period multiplier)"
  shows "calculateBollingerBands prices period multiplier ! i
           = \<lparr>upper = fl (mean + fl (sd * multiplier)), middle = mean,
              lower = fl (mean - fl (sd * multiplier))\<rparr>"
proof -
  have i: "i < length (calculateSMA prices period)"
    using assms(5) by (simp add: length_calculateBollingerBands length_calculateSMA)
  have m: "calculateSMA prices period ! i = mean"
    unfolding mean_def w_def using assms(4) i by (rule nth_calculateSMA)
  have s: "bb_stdDev prices period mean i = sd"
    by (simp add: bb_stdDev_def bb_variance_def bb_subset_window [OF assms(4)] sd_def w_def
        fsqrt_def fdiv_def fadd_def fpow2_def fsub_def)
  show ?thesis
    by (simp add: nth_calculateBollingerBands [OF assms(5)] bb_at_def Let_def m s fadd_def
        fsub_def fmul_def)
qed

lemma foldl_sq_nonneg:
  "0 \<le> s \<Longrightarrow> 0 \<le> foldl (\<lambda>s p. fl (s + fl (fl (p - mean) * fl (p - mean)))) s w"
proof (induction w arbitrary: s)
  case Nil
  then show ?case by simp
next
  case (Cons p w)
  have "0 \<le> fl (fl (p - mean) * fl (p - mean))" by (rule fl_nonneg) simp
  then have "0 \<le> fl (s + fl (fl (p - mean) * fl (p - mean)))"
    using Cons.prems by (intro fl_nonneg) simp
  then show ?case by (simp add: Cons.IH)
qed

lemma foldl_sq_constant:
  assumes "\<forall>p \<in> set w. p = mean"
  shows "foldl (\<lambda>s p. fl (s + fl (fl (p - mean) * fl (p - mean)))) 0 w = 0"
  using assms by (induction w) simp_all

text \<open>
  The range of the model. With at most \<open>2 ^ 20\<close> prices per window, prices and multiplier of
  magnitude at most \<open>2 ^ 500\<close>, every rounded value of the computation stays at or below
  \<open>2 ^ 1022\<close>, under the largest binary64 number: no operation overflows, and the model
  is the program.
\<close>

lemma fl_abs_le:
  fixes n k :: nat
  assumes "\<bar>x\<bar> \<le> real n * 2 ^ k" and "n \<le> 2 ^ 53"
  shows "\<bar>fl x\<bar> \<le> real n * 2 ^ k"
proof -
  have "int n \<le> int (2 ^ 53)" using assms(2) by (simp only: of_nat_le_iff)
  then have "int n \<le> 2 ^ 53" by simp
  then have "fl (of_int (int n) * 2 powi int k) = of_int (int n) * 2 powi int k"
    by (intro fl_fixed) simp_all
  then have "fl (real n * 2 ^ k) = real n * 2 ^ k" by simp
  moreover have "fl \<bar>x\<bar> \<le> fl (real n * 2 ^ k)" using assms(1) by (rule fl_mono)
  ultimately show ?thesis by (simp add: fl_abs)
qed

lemma fl_abs_le_pow2: "\<bar>x\<bar> \<le> 2 ^ k \<Longrightarrow> \<bar>fl x\<bar> \<le> 2 ^ k"
  using fl_abs_le [of x 1 k] by simp

lemma foldl_fl_bounded:
  fixes m k :: nat
  assumes "\<forall>p \<in> set w. \<bar>f p\<bar> \<le> 2 ^ k" and "\<bar>s\<bar> \<le> real m * 2 ^ k"
    and "m + length w \<le> 2 ^ 53"
  shows "\<bar>foldl (\<lambda>s p. fl (s + f p)) s w\<bar> \<le> real (m + length w) * 2 ^ k"
  using assms
proof (induction w arbitrary: s m)
  case Nil
  then show ?case by simp
next
  case (Cons p w)
  have "\<bar>f p\<bar> \<le> 2 ^ k" using Cons.prems(1) by simp
  then have "\<bar>s + f p\<bar> \<le> real (Suc m) * 2 ^ k"
    using Cons.prems(2) by (simp add: algebra_simps)
  moreover have "Suc m \<le> 2 ^ 53" using Cons.prems(3) by simp
  ultimately have a: "\<bar>fl (s + f p)\<bar> \<le> real (Suc m) * 2 ^ k" by (rule fl_abs_le)
  have b: "\<forall>p \<in> set w. \<bar>f p\<bar> \<le> 2 ^ k" using Cons.prems(1) by simp
  have c: "Suc m + length w \<le> 2 ^ 53" using Cons.prems(3) by simp
  have "\<bar>foldl (\<lambda>s p. fl (s + f p)) (fl (s + f p)) w\<bar> \<le> real (Suc m + length w) * 2 ^ k"
    using b a c by (rule Cons.IH)
  then show ?case by simp
qed

lemma foldl_fl_bounded_window:
  fixes k :: nat
  assumes "\<forall>p \<in> set w. \<bar>f p\<bar> \<le> 2 ^ k" and "length w \<le> 2 ^ 20"
  shows "\<bar>foldl (\<lambda>s p. fl (s + f p)) 0 w\<bar> \<le> real (length w) * 2 ^ k"
    and "\<bar>foldl (\<lambda>s p. fl (s + f p)) 0 w\<bar> \<le> 2 ^ (20 + k)"
proof -
  have "(2::nat) ^ 20 \<le> 2 ^ 53" by simp
  then have "0 + length w \<le> 2 ^ 53" using assms(2) by simp
  then have "\<bar>foldl (\<lambda>s p. fl (s + f p)) 0 w\<bar> \<le> real (0 + length w) * 2 ^ k"
    using assms(1) by (intro foldl_fl_bounded) simp_all
  then show a: "\<bar>foldl (\<lambda>s p. fl (s + f p)) 0 w\<bar> \<le> real (length w) * 2 ^ k" by simp
  have "real (length w) \<le> real ((2::nat) ^ 20)" using assms(2) by (simp only: of_nat_le_iff)
  then have "real (length w) \<le> 2 ^ 20" by simp
  then have "real (length w) * 2 ^ k \<le> 2 ^ 20 * 2 ^ k" by (intro mult_right_mono) simp_all
  then have "real (length w) * 2 ^ k \<le> 2 ^ (20 + k)" by (simp only: power_add)
  then show "\<bar>foldl (\<lambda>s p. fl (s + f p)) 0 w\<bar> \<le> 2 ^ (20 + k)"
    using a by (rule order_trans [rotated])
qed

lemma bollinger_bands_range:
  fixes prices :: "real list" and period i j :: nat and multiplier :: real
  defines "w \<equiv> take period (drop i prices)"
  defines "mean \<equiv> fl (foldl (\<lambda>a b. fl (a + b)) 0 w / real period)"
  defines "var \<equiv>
    fl (foldl (\<lambda>s p. fl (s + fl (fl (p - mean) * fl (p - mean)))) 0 w / real period)"
  defines "d \<equiv> fl (fl (sqrt var) * multiplier)"
  assumes "0 < period" and "period \<le> 2 ^ 20"
    and "\<bar>multiplier\<bar> \<le> 2 ^ 500"
    and "\<forall>p \<in> set prices. \<bar>p\<bar> \<le> 2 ^ 500"
    and "i < length (calculateBollingerBands prices period multiplier)"
  shows "\<bar>foldl (\<lambda>a b. fl (a + b)) 0 (take j w)\<bar> \<le> 2 ^ 520"
    and "\<bar>mean\<bar> \<le> 2 ^ 500"
    and "\<forall>p \<in> set w. \<bar>fl (p - mean)\<bar> \<le> 2 ^ 501
           \<and> \<bar>fl (fl (p - mean) * fl (p - mean))\<bar> \<le> 2 ^ 1002"
    and "\<bar>foldl (\<lambda>s p. fl (s + fl (fl (p - mean) * fl (p - mean)))) 0 (take j w)\<bar> \<le> 2 ^ 1022"
    and "0 \<le> var" and "var \<le> 2 ^ 1002"
    and "\<bar>fl (sqrt var)\<bar> \<le> 2 ^ 501"
    and "\<bar>d\<bar> \<le> 2 ^ 1001"
    and "\<bar>fl (mean + d)\<bar> \<le> 2 ^ 1002" and "\<bar>fl (mean - d)\<bar> \<le> 2 ^ 1002"
proof -
  have len: "length w = period"
    using assms(9) by (simp add: w_def length_calculateBollingerBands)
  have lw: "length w \<le> 2 ^ 20" using len assms(6) by simp
  have p: "\<forall>p \<in> set w. \<bar>p\<bar> \<le> 2 ^ 500"
  proof
    fix p assume "p \<in> set w"
    then have "p \<in> set (drop i prices)" unfolding w_def by (rule in_set_takeD)
    then have "p \<in> set prices" by (rule in_set_dropD)
    then show "\<bar>p\<bar> \<le> 2 ^ 500" using assms(8) by simp
  qed
  have pj: "\<forall>p \<in> set (take j w). \<bar>p\<bar> \<le> 2 ^ 500"
    using p by (auto dest: in_set_takeD)
  have lj: "length (take j w) \<le> 2 ^ 20" using lw by simp
  show "\<bar>foldl (\<lambda>a b. fl (a + b)) 0 (take j w)\<bar> \<le> 2 ^ 520"
    using foldl_fl_bounded_window(2) [where f = "\<lambda>p. p" and k = 500, OF pj lj] by simp
  have "\<bar>foldl (\<lambda>a b. fl (a + b)) 0 w\<bar> \<le> real (length w) * 2 ^ 500"
    using foldl_fl_bounded_window(1) [where f = "\<lambda>p. p" and k = 500, OF p lw] by simp
  then have "\<bar>foldl (\<lambda>a b. fl (a + b)) 0 w / real period\<bar> \<le> 2 ^ 500"
    using assms(5) by (simp add: len field_simps)
  then show m: "\<bar>mean\<bar> \<le> 2 ^ 500" unfolding mean_def by (rule fl_abs_le_pow2)
  have dv: "\<bar>fl (q - mean)\<bar> \<le> 2 ^ 501" if "q \<in> set w" for q
  proof -
    have "\<bar>q\<bar> \<le> 2 ^ 500" using p that by simp
    then have "\<bar>q - mean\<bar> \<le> 2 ^ 501" using m by simp
    then show ?thesis by (rule fl_abs_le_pow2)
  qed
  have sq: "\<bar>fl (fl (q - mean) * fl (q - mean))\<bar> \<le> 2 ^ 1002" if "q \<in> set w" for q
  proof -
    have "\<bar>fl (q - mean)\<bar> * \<bar>fl (q - mean)\<bar> \<le> 2 ^ 501 * 2 ^ 501"
      using dv [OF that] by (intro mult_mono) simp_all
    then have "\<bar>fl (q - mean) * fl (q - mean)\<bar> \<le> 2 ^ 1002"
      by (simp add: abs_mult flip: power_add)
    then show ?thesis by (rule fl_abs_le_pow2)
  qed
  show "\<forall>p \<in> set w. \<bar>fl (p - mean)\<bar> \<le> 2 ^ 501
           \<and> \<bar>fl (fl (p - mean) * fl (p - mean))\<bar> \<le> 2 ^ 1002"
    using dv sq by simp
  have sqa: "\<forall>p \<in> set w. \<bar>fl (fl (p - mean) * fl (p - mean))\<bar> \<le> 2 ^ 1002"
    using sq by simp
  have sqj: "\<forall>p \<in> set (take j w). \<bar>fl (fl (p - mean) * fl (p - mean))\<bar> \<le> 2 ^ 1002"
    using sq by (auto dest: in_set_takeD)
  show "\<bar>foldl (\<lambda>s p. fl (s + fl (fl (p - mean) * fl (p - mean)))) 0 (take j w)\<bar> \<le> 2 ^ 1022"
    using foldl_fl_bounded_window(2)
      [where f = "\<lambda>p. fl (fl (p - mean) * fl (p - mean))" and k = 1002, OF sqj lj]
    by simp
  have "\<bar>foldl (\<lambda>s p. fl (s + fl (fl (p - mean) * fl (p - mean)))) 0 w\<bar>
      \<le> real (length w) * 2 ^ 1002"
    using foldl_fl_bounded_window(1)
      [where f = "\<lambda>p. fl (fl (p - mean) * fl (p - mean))" and k = 1002, OF sqa lw]
    by simp
  then have "\<bar>foldl (\<lambda>s p. fl (s + fl (fl (p - mean) * fl (p - mean)))) 0 w / real period\<bar>
      \<le> 2 ^ 1002"
    using assms(5) by (simp add: len field_simps)
  then have "\<bar>var\<bar> \<le> 2 ^ 1002" unfolding var_def by (rule fl_abs_le_pow2)
  then show v: "var \<le> 2 ^ 1002" by simp
  have "0 \<le> foldl (\<lambda>s p. fl (s + fl (fl (p - mean) * fl (p - mean)))) 0 w"
    by (rule foldl_sq_nonneg) simp
  then show v0: "0 \<le> var" unfolding var_def by (intro fl_nonneg) simp
  have "var \<le> (2 ^ 501)\<^sup>2" using v by simp
  then have "sqrt var \<le> 2 ^ 501" by (intro real_le_lsqrt) simp_all
  then have "\<bar>sqrt var\<bar> \<le> 2 ^ 501" using v0 by simp
  then show s: "\<bar>fl (sqrt var)\<bar> \<le> 2 ^ 501" by (rule fl_abs_le_pow2)
  have "\<bar>fl (sqrt var)\<bar> * \<bar>multiplier\<bar> \<le> 2 ^ 501 * 2 ^ 500"
    using s assms(7) by (intro mult_mono) simp_all
  then have "\<bar>fl (sqrt var) * multiplier\<bar> \<le> 2 ^ 1001"
    by (simp add: abs_mult flip: power_add)
  then show d: "\<bar>d\<bar> \<le> 2 ^ 1001" unfolding d_def by (rule fl_abs_le_pow2)
  have "(2::real) ^ 500 \<le> 2 ^ 1001" by (rule power_increasing) simp_all
  then have b: "\<bar>mean + d\<bar> \<le> 2 ^ 1002" "\<bar>mean - d\<bar> \<le> 2 ^ 1002" using m d by simp_all
  show "\<bar>fl (mean + d)\<bar> \<le> 2 ^ 1002" using b(1) by (rule fl_abs_le_pow2)
  show "\<bar>fl (mean - d)\<bar> \<le> 2 ^ 1002" using b(2) by (rule fl_abs_le_pow2)
qed

text \<open>The roundings met on the prices 11, 12, ..., 30, on twenty prices 0.1, and on nineteen
  prices 3 followed by \<open>3 + 2 ^ -51\<close>.\<close>

lemma fl_ramp_1 [fl_value]: "fl (3246127787749145 / 281474976710656) = 3246127787749145 / 281474976710656"
  by (rule fl_exactI [where n = "3246127787749145" and k = 48]) simp_all

lemma fl_ramp_2 [fl_value]: "fl (9016364810317593 / 281474976710656) = 1127045601289699 / 35184372088832"
  by (rule fl_evalI [where n = "4508182405158796" and k = 47]) simp_all

lemma fl_ramp_3 [fl_value]: "fl (2524109234819303 / 281474976710656) = 2524109234819303 / 281474976710656"
  by (rule fl_exactI [where n = "2524109234819303" and k = 48]) simp_all

lemma fl_ramp_4 [fl_value]: "fl (405765973468643 / 35184372088832) = 405765973468643 / 35184372088832"
  by (rule fl_exactI [where n = "405765973468643" and k = 45]) simp_all

lemma fl_ramp_sqrt_1 [fl_value]: "fsqrt (133 / 4) = 3246127787749145 / 562949953421312"
  by (rule fsqrt_evalI [where n = "6492255575498290" and k = 50]) simp_all

lemma fl_flat_1 [fl_value]: "fl (1 / 10) = 3602879701896397 / 36028797018963968"
  by (rule fl_evalI [where n = "7205759403792794" and k = 56]) simp_all

lemma fl_flat_2 [fl_value]: "fl (3602879701896397 / 36028797018963968) = 3602879701896397 / 36028797018963968"
  by (rule fl_exactI [where n = "3602879701896397" and k = 55]) simp_all

lemma fl_flat_3 [fl_value]: "fl (3602879701896397 / 18014398509481984) = 3602879701896397 / 18014398509481984"
  by (rule fl_exactI [where n = "3602879701896397" and k = 54]) simp_all

lemma fl_flat_4 [fl_value]: "fl (10808639105689191 / 36028797018963968) = 1351079888211149 / 4503599627370496"
  by (rule fl_evalI [where n = "5404319552844596" and k = 54]) simp_all

lemma fl_flat_5 [fl_value]: "fl (14411518807585589 / 36028797018963968) = 3602879701896397 / 9007199254740992"
  by (rule fl_evalI [where n = "7205759403792794" and k = 54]) simp_all

lemma fl_flat_6 [fl_value]: "fl (18014398509481985 / 36028797018963968) = 1 / 2"
  by (rule fl_evalI [where n = "4503599627370496" and k = 53]) simp_all

lemma fl_flat_7 [fl_value]: "fl (21617278211378381 / 36028797018963968) = 5404319552844595 / 9007199254740992"
  by (rule fl_evalI [where n = "5404319552844595" and k = 53]) simp_all

lemma fl_flat_8 [fl_value]: "fl (25220157913274777 / 36028797018963968) = 3152519739159347 / 4503599627370496"
  by (rule fl_evalI [where n = "6305039478318694" and k = 53]) simp_all

lemma fl_flat_9 [fl_value]: "fl (28823037615171173 / 36028797018963968) = 7205759403792793 / 9007199254740992"
  by (rule fl_evalI [where n = "7205759403792793" and k = 53]) simp_all

lemma fl_flat_10 [fl_value]: "fl (32425917317067569 / 36028797018963968) = 2026619832316723 / 2251799813685248"
  by (rule fl_evalI [where n = "8106479329266892" and k = 53]) simp_all

lemma fl_flat_11 [fl_value]: "fl (36028797018963965 / 36028797018963968) = 9007199254740991 / 9007199254740992"
  by (rule fl_evalI [where n = "9007199254740991" and k = 53]) simp_all

lemma fl_flat_12 [fl_value]: "fl (39631676720860361 / 36028797018963968) = 4953959590107545 / 4503599627370496"
  by (rule fl_evalI [where n = "4953959590107545" and k = 52]) simp_all

lemma fl_flat_13 [fl_value]: "fl (43234556422756757 / 36028797018963968) = 5404319552844595 / 4503599627370496"
  by (rule fl_evalI [where n = "5404319552844595" and k = 52]) simp_all

lemma fl_flat_14 [fl_value]: "fl (46837436124653157 / 36028797018963968) = 5854679515581645 / 4503599627370496"
  by (rule fl_evalI [where n = "5854679515581645" and k = 52]) simp_all

lemma fl_flat_15 [fl_value]: "fl (50440315826549557 / 36028797018963968) = 6305039478318695 / 4503599627370496"
  by (rule fl_evalI [where n = "6305039478318695" and k = 52]) simp_all

lemma fl_flat_16 [fl_value]: "fl (54043195528445957 / 36028797018963968) = 6755399441055745 / 4503599627370496"
  by (rule fl_evalI [where n = "6755399441055745" and k = 52]) simp_all

lemma fl_flat_17 [fl_value]: "fl (57646075230342357 / 36028797018963968) = 7205759403792795 / 4503599627370496"
  by (rule fl_evalI [where n = "7205759403792795" and k = 52]) simp_all

lemma fl_flat_18 [fl_value]: "fl (61248954932238757 / 36028797018963968) = 7656119366529845 / 4503599627370496"
  by (rule fl_evalI [where n = "7656119366529845" and k = 52]) simp_all

lemma fl_flat_19 [fl_value]: "fl (64851834634135157 / 36028797018963968) = 8106479329266895 / 4503599627370496"
  by (rule fl_evalI [where n = "8106479329266895" and k = 52]) simp_all

lemma fl_flat_20 [fl_value]: "fl (68454714336031557 / 36028797018963968) = 8556839292003945 / 4503599627370496"
  by (rule fl_evalI [where n = "8556839292003945" and k = 52]) simp_all

lemma fl_flat_21 [fl_value]: "fl (72057594037927957 / 36028797018963968) = 4503599627370497 / 2251799813685248"
  by (rule fl_evalI [where n = "4503599627370497" and k = 51]) simp_all

lemma fl_flat_22 [fl_value]: "fl (4503599627370497 / 45035996273704960) = 7205759403792795 / 72057594037927936"
  by (rule fl_evalI [where n = "7205759403792795" and k = 56]) simp_all

lemma fl_flat_23 [fl_value]: "fl (1 / 72057594037927936) = 1 / 72057594037927936"
  by (rule fl_exactI [where n = "1" and k = 56]) simp_all

lemma fl_flat_24 [fl_value]: "fl (1 / 5192296858534827628530496329220096) = 1 / 5192296858534827628530496329220096"
  by (rule fl_exactI [where n = "1" and k = 112]) simp_all

lemma fl_flat_25 [fl_value]: "fl (1 / 2596148429267413814265248164610048) = 1 / 2596148429267413814265248164610048"
  by (rule fl_exactI [where n = "1" and k = 111]) simp_all

lemma fl_flat_26 [fl_value]: "fl (3 / 5192296858534827628530496329220096) = 3 / 5192296858534827628530496329220096"
  by (rule fl_exactI [where n = "3" and k = 112]) simp_all

lemma fl_flat_27 [fl_value]: "fl (1 / 1298074214633706907132624082305024) = 1 / 1298074214633706907132624082305024"
  by (rule fl_exactI [where n = "1" and k = 110]) simp_all

lemma fl_flat_28 [fl_value]: "fl (5 / 5192296858534827628530496329220096) = 5 / 5192296858534827628530496329220096"
  by (rule fl_exactI [where n = "5" and k = 112]) simp_all

lemma fl_flat_29 [fl_value]: "fl (3 / 2596148429267413814265248164610048) = 3 / 2596148429267413814265248164610048"
  by (rule fl_exactI [where n = "3" and k = 111]) simp_all

lemma fl_flat_30 [fl_value]: "fl (7 / 5192296858534827628530496329220096) = 7 / 5192296858534827628530496329220096"
  by (rule fl_exactI [where n = "7" and k = 112]) simp_all

lemma fl_flat_31 [fl_value]: "fl (1 / 649037107316853453566312041152512) = 1 / 649037107316853453566312041152512"
  by (rule fl_exactI [where n = "1" and k = 109]) simp_all

lemma fl_flat_32 [fl_value]: "fl (9 / 5192296858534827628530496329220096) = 9 / 5192296858534827628530496329220096"
  by (rule fl_exactI [where n = "9" and k = 112]) simp_all

lemma fl_flat_33 [fl_value]: "fl (5 / 2596148429267413814265248164610048) = 5 / 2596148429267413814265248164610048"
  by (rule fl_exactI [where n = "5" and k = 111]) simp_all

lemma fl_flat_34 [fl_value]: "fl (11 / 5192296858534827628530496329220096) = 11 / 5192296858534827628530496329220096"
  by (rule fl_exactI [where n = "11" and k = 112]) simp_all

lemma fl_flat_35 [fl_value]: "fl (3 / 1298074214633706907132624082305024) = 3 / 1298074214633706907132624082305024"
  by (rule fl_exactI [where n = "3" and k = 110]) simp_all

lemma fl_flat_36 [fl_value]: "fl (13 / 5192296858534827628530496329220096) = 13 / 5192296858534827628530496329220096"
  by (rule fl_exactI [where n = "13" and k = 112]) simp_all

lemma fl_flat_37 [fl_value]: "fl (7 / 2596148429267413814265248164610048) = 7 / 2596148429267413814265248164610048"
  by (rule fl_exactI [where n = "7" and k = 111]) simp_all

lemma fl_flat_38 [fl_value]: "fl (15 / 5192296858534827628530496329220096) = 15 / 5192296858534827628530496329220096"
  by (rule fl_exactI [where n = "15" and k = 112]) simp_all

lemma fl_flat_39 [fl_value]: "fl (1 / 324518553658426726783156020576256) = 1 / 324518553658426726783156020576256"
  by (rule fl_exactI [where n = "1" and k = 108]) simp_all

lemma fl_flat_40 [fl_value]: "fl (17 / 5192296858534827628530496329220096) = 17 / 5192296858534827628530496329220096"
  by (rule fl_exactI [where n = "17" and k = 112]) simp_all

lemma fl_flat_41 [fl_value]: "fl (9 / 2596148429267413814265248164610048) = 9 / 2596148429267413814265248164610048"
  by (rule fl_exactI [where n = "9" and k = 111]) simp_all

lemma fl_flat_42 [fl_value]: "fl (19 / 5192296858534827628530496329220096) = 19 / 5192296858534827628530496329220096"
  by (rule fl_exactI [where n = "19" and k = 112]) simp_all

lemma fl_flat_43 [fl_value]: "fl (5 / 1298074214633706907132624082305024) = 5 / 1298074214633706907132624082305024"
  by (rule fl_exactI [where n = "5" and k = 110]) simp_all

lemma fl_flat_44 [fl_value]: "fl (1 / 36028797018963968) = 1 / 36028797018963968"
  by (rule fl_exactI [where n = "1" and k = 55]) simp_all

lemma fl_flat_45 [fl_value]: "fl (7205759403792797 / 72057594037927936) = 7205759403792797 / 72057594037927936"
  by (rule fl_exactI [where n = "7205759403792797" and k = 56]) simp_all

lemma fl_flat_46 [fl_value]: "fl (7205759403792793 / 72057594037927936) = 7205759403792793 / 72057594037927936"
  by (rule fl_exactI [where n = "7205759403792793" and k = 56]) simp_all

lemma fl_flat_sqrt_1 [fl_value]: "fsqrt (1 / 5192296858534827628530496329220096) = 1 / 72057594037927936"
  by (rule fsqrt_evalI [where n = "4503599627370496" and k = 108]) simp_all

lemma fl_near_1 [fl_value]: "fl (135107988821114881 / 2251799813685248) = 60"
  by (rule fl_evalI [where n = "8444249301319680" and k = 47]) simp_all

lemma fl_near_2 [fl_value]: "fl (1 / 2251799813685248) = 1 / 2251799813685248"
  by (rule fl_exactI [where n = "1" and k = 51]) simp_all

lemma fl_near_3 [fl_value]: "fl (1 / 5070602400912917605986812821504) = 1 / 5070602400912917605986812821504"
  by (rule fl_exactI [where n = "1" and k = 102]) simp_all

lemma fl_near_4 [fl_value]: "fl (1 / 101412048018258352119736256430080) = 3602879701896397 / 365375409332725729550921208179070754913983135744"
  by (rule fl_evalI [where n = "7205759403792794" and k = 159]) simp_all

lemma fl_near_5 [fl_value]: "fl (8056283928194521 / 40564819207303340847894502572032) = 8056283928194521 / 40564819207303340847894502572032"
  by (rule fl_exactI [where n = "8056283928194521" and k = 105]) simp_all

lemma fl_near_6 [fl_value]: "fl (121694457621910030599967435910617 / 40564819207303340847894502572032) = 3"
  by (rule fl_evalI [where n = "6755399441055744" and k = 51]) simp_all

lemma fl_near_7 [fl_value]: "fl (121694457621910014487399579521575 / 40564819207303340847894502572032) = 3"
  by (rule fl_evalI [where n = "6755399441055744" and k = 51]) simp_all

lemma fl_near_sqrt_1 [fl_value]: "fsqrt (3602879701896397 / 365375409332725729550921208179070754913983135744) = 8056283928194521 / 81129638414606681695789005144064"
  by (rule fsqrt_evalI [where n = "8056283928194521" and k = 106]) simp_all

lemma replicate_19: "replicate 19 x = [x, x, x, x, x, x, x, x, x, x, x, x, x, x, x, x, x, x, x]"
  by (simp add: numeral_eq_Suc)

lemma replicate_20:
  "replicate 20 x = [x, x, x, x, x, x, x, x, x, x, x, x, x, x, x, x, x, x, x, x]"
  by (simp add: numeral_eq_Suc)

lemma calculateBollingerBands_ramp:
  "calculateBollingerBands
     [11, 12, 13, 14, 15, 16, 17, 18, 19, 20, 21, 22, 23, 24, 25, 26, 27, 28, 29, 30] 20 2
   = [\<lparr>upper = 1127045601289699 / 35184372088832, middle = 41 / 2,
       lower = 2524109234819303 / 281474976710656\<rparr>]"
  by (simp add: calculateBollingerBands_def calculateSMA_def bb_at_def bb_stdDev_def
      bb_variance_def bb_subset_def slice_def reduce_sum64_def Let_def fadd_def fsub_def fmul_def
      fdiv_def fpow2_def replicate_19 replicate_20 fl_value)

lemma calculateBollingerBands_flat:
  "calculateBollingerBands (replicate 20 (fl 0.1)) 20 2
   = [\<lparr>upper = 7205759403792797 / 72057594037927936,
       middle = 7205759403792795 / 72057594037927936,
       lower = 7205759403792793 / 72057594037927936\<rparr>]"
  by (simp add: calculateBollingerBands_def calculateSMA_def bb_at_def bb_stdDev_def
      bb_variance_def bb_subset_def slice_def reduce_sum64_def Let_def fadd_def fsub_def fmul_def
      fdiv_def fpow2_def replicate_19 replicate_20 fl_value)

lemma calculateBollingerBands_near:
  "calculateBollingerBands (replicate 19 3 @ [3 + 1 / 2 ^ 51]) 20 2
   = [\<lparr>upper = 3, middle = 3, lower = 3\<rparr>]"
  by (simp add: calculateBollingerBands_def calculateSMA_def bb_at_def bb_stdDev_def
      bb_variance_def bb_subset_def slice_def reduce_sum64_def Let_def fadd_def fsub_def fmul_def
      fdiv_def fpow2_def replicate_19 replicate_20 fl_value)

text \<open>
  On nineteen prices 3 followed by \<open>3 + 2 ^ -51\<close> the three bands are equal although the window
  is not constant and its standard deviation is not 0: twice the deviation is less than half
  the spacing of the binary64 numbers at 3.
\<close>

lemma bollinger_bands_equal_nonconstant:
  "calculateBollingerBands (replicate 19 3 @ [3 + 1 / 2 ^ 51]) 20 2
     = [\<lparr>upper = 3, middle = 3, lower = 3\<rparr>]
   \<and> bb_stdDev (replicate 19 3 @ [3 + 1 / 2 ^ 51]) 20 3 0
     = 8056283928194521 / 81129638414606681695789005144064"
  unfolding calculateBollingerBands_near
  by (simp add: bb_stdDev_def bb_variance_def bb_subset_def slice_def Let_def fadd_def fsub_def
      fdiv_def fpow2_def replicate_19 fl_value)

text \<open>
  Claim C3, as the source computes it. In binary64 the mean of a constant window need not be
  the constant (twenty prices 0.1 have the mean 0.10000000000000002), so a constant window can
  have a standard deviation other than 0 and three different bands. What holds for every
  series and output position, for a non-negative multiplier and within the range where no
  operation overflows: \<open>lower \<le> middle \<le> upper\<close>; the three bands are equal when the standard
  deviation is 0; and the standard deviation is 0 when every price of the window is equal to
  the middle band. The window, the mean and the standard deviation are written out over
  \<open>prices\<close>.
\<close>

theorem bollinger_bands_ordered:
  fixes prices :: "real list" and period i :: nat and multiplier :: real
  defines "w \<equiv> take period (drop i prices)"
  defines "mean \<equiv> fl (foldl (\<lambda>a b. fl (a + b)) 0 w / real period)"
  defines "sd \<equiv>
    fl (sqrt (fl (foldl (\<lambda>s p. fl (s + fl (fl (p - mean) * fl (p - mean)))) 0 w / real period)))"
  defines "b \<equiv> calculateBollingerBands prices period multiplier ! i"
  assumes "0 < period" and "period \<le> 2 ^ 20"
    and "0 \<le> multiplier" and "multiplier \<le> 2 ^ 500"
    and "\<forall>p \<in> set prices. \<bar>p\<bar> \<le> 2 ^ 500"
    and "i < length (calculateBollingerBands prices period multiplier)"
  shows "lower b \<le> middle b \<and> middle b \<le> upper b
     \<and> middle b = mean
     \<and> upper b = fl (mean + fl (sd * multiplier))
     \<and> lower b = fl (mean - fl (sd * multiplier))
     \<and> (sd = 0 \<longrightarrow> lower b = middle b \<and> upper b = middle b)
     \<and> ((\<forall>p \<in> set w. p = middle b) \<longrightarrow> sd = 0 \<and> lower b = middle b \<and> upper b = middle b)"
proof -
  have b: "b = \<lparr>upper = fl (mean + fl (sd * multiplier)), middle = mean,
                lower = fl (mean - fl (sd * multiplier))\<rparr>"
    unfolding b_def mean_def sd_def w_def using assms(5,10) by (rule bb_at_window)
  have m: "fl mean = mean" by (simp add: mean_def fl_idem)
  have "0 \<le> foldl (\<lambda>s p. fl (s + fl (fl (p - mean) * fl (p - mean)))) 0 w"
    by (rule foldl_sq_nonneg) simp
  then have "0 \<le> fl (foldl (\<lambda>s p. fl (s + fl (fl (p - mean) * fl (p - mean)))) 0 w / real period)"
    by (intro fl_nonneg) simp
  then have "0 \<le> sd" unfolding sd_def by (intro fl_nonneg) simp
  then have d: "0 \<le> fl (sd * multiplier)" using assms(7) by (intro fl_nonneg) simp
  have "fl (mean - fl (sd * multiplier)) \<le> fl mean" using d by (intro fl_mono) simp
  then have lo: "fl (mean - fl (sd * multiplier)) \<le> mean" by (simp only: m)
  have "fl mean \<le> fl (mean + fl (sd * multiplier))" using d by (intro fl_mono) simp
  then have hi: "mean \<le> fl (mean + fl (sd * multiplier))" by (simp only: m)
  have z: "fl (mean + fl (sd * multiplier)) = mean \<and> fl (mean - fl (sd * multiplier)) = mean"
    if "sd = 0"
    using that m by simp
  have c: "sd = 0" if "\<forall>p \<in> set w. p = mean"
    using that by (simp add: sd_def foldl_sq_constant)
  show ?thesis
    using lo hi z c by (simp add: b)
qed

theorem bollinger_bands_ordered_witness:
  "(0::nat) < 20 \<and> (20::nat) \<le> 2 ^ 20 \<and> (0::real) \<le> 2 \<and> (2::real) \<le> 2 ^ 500
   \<and> \<bar>30::real\<bar> \<le> 2 ^ 500
   \<and> 0 < length (calculateBollingerBands
         [11, 12, 13, 14, 15, 16, 17, 18, 19, 20, 21, 22, 23, 24, 25, 26, 27, 28, 29, 30] 20 2)
   \<and> lower (calculateBollingerBands
         [11, 12, 13, 14, 15, 16, 17, 18, 19, 20, 21, 22, 23, 24, 25, 26, 27, 28, 29, 30] 20 2 ! 0)
       \<le> middle (calculateBollingerBands
         [11, 12, 13, 14, 15, 16, 17, 18, 19, 20, 21, 22, 23, 24, 25, 26, 27, 28, 29, 30] 20 2 ! 0)
   \<and> middle (calculateBollingerBands
         [11, 12, 13, 14, 15, 16, 17, 18, 19, 20, 21, 22, 23, 24, 25, 26, 27, 28, 29, 30] 20 2 ! 0)
       \<le> upper (calculateBollingerBands
         [11, 12, 13, 14, 15, 16, 17, 18, 19, 20, 21, 22, 23, 24, 25, 26, 27, 28, 29, 30] 20 2 ! 0)
   \<and> middle (calculateBollingerBands (replicate 20 3) 20 2 ! 0) = 3
   \<and> lower (calculateBollingerBands (replicate 20 3) 20 2 ! 0) = 3
   \<and> upper (calculateBollingerBands (replicate 20 3) 20 2 ! 0) = 3"
  using
    bollinger_bands_ordered [where period = 20 and multiplier = 2 and i = 0 and prices =
      "[11, 12, 13, 14, 15, 16, 17, 18, 19, 20, 21, 22, 23, 24, 25, 26, 27, 28, 29, 30]"]
    bollinger_bands_ordered [where period = 20 and multiplier = 2 and i = 0 and prices =
      "replicate 20 3"]
  by (simp add: length_calculateBollingerBands replicate_20)

text \<open>
  Twenty prices 0.1 are a constant window, but their binary64 sum is 2.0000000000000004 and
  their mean 0.10000000000000002; the standard deviation is \<open>2 ^ -56\<close> (1.39e-17), not 0, and
  the three bands are different.
\<close>

theorem bollinger_bands_constant_window_counterexample:
  "calculateBollingerBands (replicate 20 (fl 0.1)) 20 2 ! 0
     = \<lparr>upper = 7205759403792797 / 72057594037927936,
        middle = 7205759403792795 / 72057594037927936,
        lower = 7205759403792793 / 72057594037927936\<rparr>
   \<and> fl 0.1 = 7205759403792794 / 72057594037927936
   \<and> bb_stdDev (replicate 20 (fl 0.1)) 20 (calculateSMA (replicate 20 (fl 0.1)) 20 ! 0) 0
       = 1 / 72057594037927936
   \<and> lower (calculateBollingerBands (replicate 20 (fl 0.1)) 20 2 ! 0)
       < middle (calculateBollingerBands (replicate 20 (fl 0.1)) 20 2 ! 0)
   \<and> middle (calculateBollingerBands (replicate 20 (fl 0.1)) 20 2 ! 0)
       < upper (calculateBollingerBands (replicate 20 (fl 0.1)) 20 2 ! 0)"
  unfolding calculateBollingerBands_flat
  by (simp add: calculateSMA_def bb_stdDev_def bb_variance_def bb_subset_def slice_def
      reduce_sum64_def Let_def fadd_def fsub_def fdiv_def fpow2_def replicate_20 fl_value)

text \<open>
  Claim C10, as the source computes it. The two bands are the roundings of \<open>middle + d\<close> and
  \<open>middle - d\<close>, with \<open>d\<close> the rounded product of the standard deviation and the multiplier;
  the two sums are rounded separately, so \<open>upper - middle\<close> and \<open>middle - lower\<close> each differ
  from \<open>d\<close> by at most one rounding error (half a unit in the last place of the band), and
  need not be equal. The window, the mean and the standard deviation are written out over
  \<open>prices\<close>.
\<close>

theorem bollinger_bands_symmetric:
  fixes prices :: "real list" and period i :: nat and multiplier :: real
  defines "w \<equiv> take period (drop i prices)"
  defines "mean \<equiv> fl (foldl (\<lambda>a b. fl (a + b)) 0 w / real period)"
  defines "sd \<equiv>
    fl (sqrt (fl (foldl (\<lambda>s p. fl (s + fl (fl (p - mean) * fl (p - mean)))) 0 w / real period)))"
  defines "d \<equiv> fl (sd * multiplier)"
  defines "b \<equiv> calculateBollingerBands prices period multiplier ! i"
  assumes "0 < period" and "period \<le> 2 ^ 20"
    and "\<bar>multiplier\<bar> \<le> 2 ^ 500"
    and "\<forall>p \<in> set prices. \<bar>p\<bar> \<le> 2 ^ 500"
    and "i < length (calculateBollingerBands prices period multiplier)"
  shows "middle b = mean \<and> upper b = fl (mean + d) \<and> lower b = fl (mean - d)
     \<and> \<bar>(upper b - middle b) - d\<bar> \<le> max (\<bar>mean + d\<bar> / 2 ^ 53) (2 powi (- 1075))
     \<and> \<bar>(middle b - lower b) - d\<bar> \<le> max (\<bar>mean - d\<bar> / 2 ^ 53) (2 powi (- 1075))
     \<and> \<bar>(upper b - middle b) - (middle b - lower b)\<bar>
         \<le> max (\<bar>mean + d\<bar> / 2 ^ 53) (2 powi (- 1075))
           + max (\<bar>mean - d\<bar> / 2 ^ 53) (2 powi (- 1075))"
proof -
  have b: "b = \<lparr>upper = fl (mean + d), middle = mean, lower = fl (mean - d)\<rparr>"
    unfolding b_def d_def mean_def sd_def w_def using assms(6,10) by (rule bb_at_window)
  define eu where "eu = max (\<bar>mean + d\<bar> / 2 ^ 53) (2 powi (- 1075))"
  define el where "el = max (\<bar>mean - d\<bar> / 2 ^ 53) (2 powi (- 1075))"
  have u: "\<bar>fl (mean + d) - (mean + d)\<bar> \<le> eu" unfolding eu_def by (rule fl_err)
  have l: "\<bar>fl (mean - d) - (mean - d)\<bar> \<le> el" unfolding el_def by (rule fl_err)
  have u': "\<bar>(fl (mean + d) - mean) - d\<bar> \<le> eu"
    using u by (simp add: algebra_simps)
  have l': "\<bar>(mean - fl (mean - d)) - d\<bar> \<le> el"
    using l by (simp add: algebra_simps abs_minus_commute)
  have s: "\<bar>(fl (mean + d) - mean) - (mean - fl (mean - d))\<bar> \<le> eu + el"
    using u' l' by linarith
  show ?thesis
    unfolding b eu_def [symmetric] el_def [symmetric] using u' l' s by simp
qed

theorem bollinger_bands_symmetric_witness:
  "(0::nat) < 20 \<and> (20::nat) \<le> 2 ^ 20 \<and> \<bar>2::real\<bar> \<le> 2 ^ 500 \<and> \<bar>30::real\<bar> \<le> 2 ^ 500
   \<and> 0 < length (calculateBollingerBands
         [11, 12, 13, 14, 15, 16, 17, 18, 19, 20, 21, 22, 23, 24, 25, 26, 27, 28, 29, 30] 20 2)
   \<and> middle (calculateBollingerBands
         [11, 12, 13, 14, 15, 16, 17, 18, 19, 20, 21, 22, 23, 24, 25, 26, 27, 28, 29, 30] 20 2 ! 0)
       = 41 / 2
   \<and> upper (calculateBollingerBands
         [11, 12, 13, 14, 15, 16, 17, 18, 19, 20, 21, 22, 23, 24, 25, 26, 27, 28, 29, 30] 20 2 ! 0)
       = fl (41 / 2 + 3246127787749145 / 281474976710656)
   \<and> lower (calculateBollingerBands
         [11, 12, 13, 14, 15, 16, 17, 18, 19, 20, 21, 22, 23, 24, 25, 26, 27, 28, 29, 30] 20 2 ! 0)
       = fl (41 / 2 - 3246127787749145 / 281474976710656)"
  using
    bollinger_bands_symmetric [where period = 20 and multiplier = 2 and i = 0 and prices =
      "[11, 12, 13, 14, 15, 16, 17, 18, 19, 20, 21, 22, 23, 24, 25, 26, 27, 28, 29, 30]"]
  by (simp add: length_calculateBollingerBands fl_value flip: fsqrt_def)

text \<open>
  On the prices 11, 12, ..., 30 the middle band is 20.5 and \<open>d\<close> is 11.532562594670797. The
  upper band 32.03256259467079 is rounded to a multiple of \<open>2 ^ -47\<close> and lies
  11.532562594670793 above the middle; the lower band 8.967437405329203 is exact and lies
  11.532562594670797 below it. The two distances differ, as real numbers and as binary64
  differences.
\<close>

theorem bollinger_bands_asymmetric_counterexample:
  "calculateBollingerBands
     [11, 12, 13, 14, 15, 16, 17, 18, 19, 20, 21, 22, 23, 24, 25, 26, 27, 28, 29, 30] 20 2 ! 0
     = \<lparr>upper = 1127045601289699 / 35184372088832, middle = 41 / 2,
        lower = 2524109234819303 / 281474976710656\<rparr>
   \<and> upper (calculateBollingerBands
        [11, 12, 13, 14, 15, 16, 17, 18, 19, 20, 21, 22, 23, 24, 25, 26, 27, 28, 29, 30] 20 2 ! 0)
      - middle (calculateBollingerBands
        [11, 12, 13, 14, 15, 16, 17, 18, 19, 20, 21, 22, 23, 24, 25, 26, 27, 28, 29, 30] 20 2 ! 0)
      = 405765973468643 / 35184372088832
   \<and> middle (calculateBollingerBands
        [11, 12, 13, 14, 15, 16, 17, 18, 19, 20, 21, 22, 23, 24, 25, 26, 27, 28, 29, 30] 20 2 ! 0)
      - lower (calculateBollingerBands
        [11, 12, 13, 14, 15, 16, 17, 18, 19, 20, 21, 22, 23, 24, 25, 26, 27, 28, 29, 30] 20 2 ! 0)
      = 3246127787749145 / 281474976710656
   \<and> fsub (upper (calculateBollingerBands
        [11, 12, 13, 14, 15, 16, 17, 18, 19, 20, 21, 22, 23, 24, 25, 26, 27, 28, 29, 30] 20 2 ! 0))
      (middle (calculateBollingerBands
        [11, 12, 13, 14, 15, 16, 17, 18, 19, 20, 21, 22, 23, 24, 25, 26, 27, 28, 29, 30] 20 2 ! 0))
      = 405765973468643 / 35184372088832
   \<and> fsub (middle (calculateBollingerBands
        [11, 12, 13, 14, 15, 16, 17, 18, 19, 20, 21, 22, 23, 24, 25, 26, 27, 28, 29, 30] 20 2 ! 0))
      (lower (calculateBollingerBands
        [11, 12, 13, 14, 15, 16, 17, 18, 19, 20, 21, 22, 23, 24, 25, 26, 27, 28, 29, 30] 20 2 ! 0))
      = 3246127787749145 / 281474976710656
   \<and> bb_stdDev
        [11, 12, 13, 14, 15, 16, 17, 18, 19, 20, 21, 22, 23, 24, 25, 26, 27, 28, 29, 30] 20
        (41 / 2) 0 = 3246127787749145 / 562949953421312
   \<and> (405765973468643 / 35184372088832 :: real) \<noteq> 3246127787749145 / 281474976710656"
  unfolding calculateBollingerBands_ramp
  by (simp add: bb_stdDev_def bb_variance_def bb_subset_def slice_def Let_def fadd_def fsub_def
      fdiv_def fpow2_def fl_value)

subsection \<open>The technical snapshot\<close>

lemma length_calculateRSI:
  "length (calculateRSI prices period) = length prices - 1 - period"
  by (simp add: calculateRSI_def Let_def price_changes_def)

lemma calculateSimpleTechnicals_short:
  "length prices < 20 \<Longrightarrow> calculateSimpleTechnicals prices = None"
  by (simp add: calculateSimpleTechnicals_def Let_def)

lemma calculateSimpleTechnicals_long:
  assumes "20 \<le> length prices"
  shows "\<exists>t. calculateSimpleTechnicals prices = Some t
           \<and> sma_20 t \<noteq> None \<and> rsi t \<noteq> None \<and> bollinger_bands t \<noteq> None
           \<and> (sma_50 t = None \<longleftrightarrow> length prices < 50)"
proof -
  have a: "calculateSMA (map snd prices) 20 \<noteq> []"
    using assms by (auto simp: calculateSMA_def)
  have b: "calculateRSI (map snd prices) 14 \<noteq> []"
    using assms length_calculateRSI [of "map snd prices" 14] by auto
  have c: "calculateBollingerBands (map snd prices) 20 2 \<noteq> []"
    using assms by (auto simp: calculateBollingerBands_def calculateSMA_def Let_def)
  have d: "calculateSMA (map snd prices) 50 = [] \<longleftrightarrow> length prices < 50"
    by (auto simp: calculateSMA_def)
  show ?thesis
    using assms a b c d
    by (simp add: calculateSimpleTechnicals_def Let_def last_elem_def)
qed

text \<open>
  Claim C7, as the source has it. The guard \<open>length < 20\<close> returns \<open>null\<close> for the whole
  snapshot: with fewer than 20 samples no technical indicator is reported (the prediction
  is still computed, with technical score 0.5 and \<open>'N/A'\<close> targets). From 20 samples on the
  snapshot exists with \<open>sma_20\<close>, \<open>rsi\<close> and \<open>bollinger_bands\<close> present, and \<open>sma_50\<close> is
  absent exactly below 50 samples.
\<close>

theorem calculateSimpleTechnicals_guard:
  "(length prices < 20 \<longrightarrow>
      calculateSimpleTechnicals prices = None
      \<and> technicalScore (calculateSimpleTechnicals prices) = 0.5
      \<and> price_targets (generateGodPrediction (calculateSimpleTechnicals prices) f s m)
          = \<lparr>support = NA, resistance = NA\<rparr>)
   \<and> (20 \<le> length prices \<longrightarrow>
        (\<exists>t. calculateSimpleTechnicals prices = Some t
           \<and> sma_20 t \<noteq> None \<and> rsi t \<noteq> None \<and> bollinger_bands t \<noteq> None
           \<and> (sma_50 t = None \<longleftrightarrow> length prices < 50)))"
  using calculateSimpleTechnicals_long [of prices]
  by (simp add: calculateSimpleTechnicals_short technicalScore_def generateGodPrediction_def
      prediction_of_def targets_of_def or_NA_def)

theorem calculateSimpleTechnicals_guard_witness:
  "calculateSimpleTechnicals (map (\<lambda>i. (real i, 100 + real i)) [0 ..< 19]) = None
   \<and> (\<exists>t. calculateSimpleTechnicals (map (\<lambda>i. (real i, 100 + real i)) [0 ..< 20]) = Some t
         \<and> sma_20 t \<noteq> None \<and> rsi t \<noteq> None \<and> bollinger_bands t \<noteq> None
         \<and> sma_50 t = None)"
  using
    calculateSimpleTechnicals_guard
      [where prices = "map (\<lambda>i. (real i, 100 + real i)) [0 ..< 19]" and f = "()"
        and s = "\<lparr>score = 0\<rparr>"
        and m = "\<lparr>liquidityScore = 0, institutionalInterest = ''medium''\<rparr>"]
    calculateSimpleTechnicals_guard
      [where prices = "map (\<lambda>i. (real i, 100 + real i)) [0 ..< 20]" and f = "()"
        and s = "\<lparr>score = 0\<rparr>"
        and m = "\<lparr>liquidityScore = 0, institutionalInterest = ''medium''\<rparr>"]
  by simp

text \<open>
  With 19 samples the snapshot is \<open>null\<close> although the RSI of period 14, which needs 16
  samples, has four values on the same series: the rest of the technical report is not
  produced.
\<close>

theorem calculateSimpleTechnicals_19_counterexample:
  "calculateSimpleTechnicals
     [(0, 1), (1, 2), (2, 3), (3, 4), (4, 5), (5, 6), (6, 7), (7, 8), (8, 9), (9, 10),
       (10, 11), (11, 12), (12, 13), (13, 14), (14, 15), (15, 16), (16, 17), (17, 18),
       (18, 19)] = None
   \<and> calculateRSI (map snd
     [(0, 1), (1, 2), (2, 3), (3, 4), (4, 5), (5, 6), (6, 7), (7, 8), (8, 9), (9, 10),
       (10, 11), (11, 12), (12, 13), (13, 14), (14, 15), (15, 16), (16, 17), (17, 18),
       (18, 19 :: real) :: real \<times> real]) 14
     = [10000 / 101, 10000 / 101, 10000 / 101, 10000 / 101]"
proof
  show "calculateSimpleTechnicals
     [(0, 1), (1, 2), (2, 3), (3, 4), (4, 5), (5, 6), (6, 7), (7, 8), (8, 9), (9, 10),
       (10, 11), (11, 12), (12, 13), (13, 14), (14, 15), (15, 16), (16, 17), (17, 18),
       (18, 19)] = None"
    by (simp add: calculateSimpleTechnicals_def)
  show "calculateRSI (map snd
     [(0, 1), (1, 2), (2, 3), (3, 4), (4, 5), (5, 6), (6, 7), (7, 8), (8, 9), (9, 10),
       (10, 11), (11, 12), (12, 13), (13, 14), (14, 15), (15, 16), (16, 17), (17, 18),
       (18, 19 :: real) :: real \<times> real]) 14
     = [10000 / 101, 10000 / 101, 10000 / 101, 10000 / 101]"
    by code_simp
qed

subsection \<open>Composite prediction\<close>

text \<open>The roundings met when the score is evaluated at its extreme and at some middle
  sub-scores.\<close>

lemma fl_score_1 [fl_value]: "fl (1 / 10) = 3602879701896397 / 36028797018963968"
  by (rule fl_evalI [where n = "7205759403792794" and k = 56]) simp_all

lemma fl_score_2 [fl_value]: "fl (1 / 5) = 3602879701896397 / 18014398509481984"
  by (rule fl_evalI [where n = "7205759403792794" and k = 55]) simp_all

lemma fl_score_3 [fl_value]: "fl (3 / 10) = 5404319552844595 / 18014398509481984"
  by (rule fl_evalI [where n = "5404319552844595" and k = 54]) simp_all

lemma fl_score_4 [fl_value]: "fl (2 / 5) = 3602879701896397 / 9007199254740992"
  by (rule fl_evalI [where n = "7205759403792794" and k = 54]) simp_all

lemma fl_score_5 [fl_value]: "fl (3 / 5) = 5404319552844595 / 9007199254740992"
  by (rule fl_evalI [where n = "5404319552844595" and k = 53]) simp_all

lemma fl_score_6 [fl_value]: "fl (7 / 10) = 3152519739159347 / 4503599627370496"
  by (rule fl_evalI [where n = "6305039478318694" and k = 53]) simp_all

lemma fl_score_7 [fl_value]: "fl (4 / 5) = 3602879701896397 / 4503599627370496"
  by (rule fl_evalI [where n = "7205759403792794" and k = 53]) simp_all

lemma fl_score_8 [fl_value]: "fl (31 / 100) = 5584463537939415 / 18014398509481984"
  by (rule fl_evalI [where n = "5584463537939415" and k = 54]) simp_all

lemma fl_score_9 [fl_value]: "fl (12980742146337070512478121581609 / 162259276829213363391578010288128) = 1441151880758559 / 18014398509481984"
  by (rule fl_evalI [where n = "5764607523034236" and k = 56]) simp_all

lemma fl_score_10 [fl_value]: "fl (19471113219505603967277331424215 / 162259276829213363391578010288128) = 1080863910568919 / 9007199254740992"
  by (rule fl_evalI [where n = "8646911284551352" and k = 56]) simp_all

lemma fl_score_11 [fl_value]: "fl (3602879701896397 / 18014398509481984) = 3602879701896397 / 18014398509481984"
  by (rule fl_exactI [where n = "3602879701896397" and k = 54]) simp_all

lemma fl_score_12 [fl_value]: "fl (19471113219505603967277331424215 / 324518553658426726783156020576256) = 1080863910568919 / 18014398509481984"
  by (rule fl_evalI [where n = "8646911284551352" and k = 57]) simp_all

lemma fl_score_13 [fl_value]: "fl (1170935903116329 / 4503599627370496) = 1170935903116329 / 4503599627370496"
  by (rule fl_exactI [where n = "1170935903116329" and k = 52]) simp_all

lemma fl_score_14 [fl_value]: "fl (3602879701896397 / 72057594037927936) = 3602879701896397 / 72057594037927936"
  by (rule fl_exactI [where n = "3602879701896397" and k = 56]) simp_all

lemma fl_score_15 [fl_value]: "fl (22337854151757661 / 72057594037927936) = 5584463537939415 / 18014398509481984"
  by (rule fl_evalI [where n = "5584463537939415" and k = 54]) simp_all

lemma fl_score_16 [fl_value]: "fl (12980742146337070512478121581609 / 40564819207303340847894502572032) = 1441151880758559 / 4503599627370496"
  by (rule fl_evalI [where n = "5764607523034236" and k = 54]) simp_all

lemma fl_score_17 [fl_value]: "fl (17037224067067401444747832679465 / 81129638414606681695789005144064) = 7566047373982433 / 36028797018963968"
  by (rule fl_evalI [where n = "7566047373982433" and k = 55]) simp_all

lemma fl_score_18 [fl_value]: "fl (19095262420050905 / 36028797018963968) = 2386907802506363 / 4503599627370496"
  by (rule fl_evalI [where n = "4773815605012726" and k = 53]) simp_all

lemma fl_score_19 [fl_value]: "fl (11358149378044935347338468172759 / 81129638414606681695789005144064) = 5044031582654955 / 36028797018963968"
  by (rule fl_evalI [where n = "5044031582654955" and k = 55]) simp_all

lemma fl_score_20 [fl_value]: "fl (24139294002705859 / 36028797018963968) = 6034823500676465 / 9007199254740992"
  by (rule fl_evalI [where n = "6034823500676465" and k = 53]) simp_all

lemma fl_score_21 [fl_value]: "fl (13510798882111489 / 18014398509481984) = 3 / 4"
  by (rule fl_evalI [where n = "6755399441055744" and k = 53]) simp_all

lemma fl_score_22 [fl_value]: "fl (14771806777775227 / 36028797018963968) = 3692951694443807 / 9007199254740992"
  by (rule fl_evalI [where n = "7385903388887614" and k = 54]) simp_all

lemma fl_score_23 [fl_value]: "fl (19815838360430183 / 36028797018963968) = 2476979795053773 / 4503599627370496"
  by (rule fl_evalI [where n = "4953959590107546" and k = 53]) simp_all

lemma fl_score_24 [fl_value]: "fl (43234556422756765 / 72057594037927936) = 1351079888211149 / 2251799813685248"
  by (rule fl_evalI [where n = "5404319552844596" and k = 53]) simp_all

lemma fl_score_25 [fl_value]: "fl (225179981368525 / 2251799813685248) = 225179981368525 / 2251799813685248"
  by (rule fl_exactI [where n = "225179981368525" and k = 51]) simp_all

lemma fl_score_26 [fl_value]: "fl (5629499534213125 / 281474976710656) = 5629499534213125 / 281474976710656"
  by (rule fl_exactI [where n = "5629499534213125" and k = 48]) simp_all

lemma fl_score_27 [fl_value]: "fl (5764607523034235 / 18014398509481984) = 5764607523034235 / 18014398509481984"
  by (rule fl_exactI [where n = "5764607523034235" and k = 54]) simp_all

lemma fl_score_28 [fl_value]: "fl (16573246628723425 / 36028797018963968) = 517913957147607 / 1125899906842624"
  by (rule fl_evalI [where n = "8286623314361712" and k = 54]) simp_all

lemma fl_score_29 [fl_value]: "fl (36749372959343245 / 72057594037927936) = 2296835809958953 / 4503599627370496"
  by (rule fl_evalI [where n = "4593671619917906" and k = 53]) simp_all

lemma fl_score_30 [fl_value]: "fl (45035996273705 / 4503599627370496) = 45035996273705 / 4503599627370496"
  by (rule fl_exactI [where n = "45035996273705" and k = 52]) simp_all

lemma fl_score_31 [fl_value]: "fl (1125899906842625 / 562949953421312) = 1125899906842625 / 562949953421312"
  by (rule fl_exactI [where n = "1125899906842625" and k = 49]) simp_all

lemma fl_score_32 [fl_value]: "fl (12610078956637389 / 18014398509481984) = 3152519739159347 / 4503599627370496"
  by (rule fl_evalI [where n = "6305039478318694" and k = 53]) simp_all

lemma fl_score_33 [fl_value]: "fl (16212958658533785 / 18014398509481984) = 2026619832316723 / 2251799813685248"
  by (rule fl_evalI [where n = "8106479329266892" and k = 53]) simp_all

lemma fl_score_34 [fl_value]: "fl (36028797018963965 / 36028797018963968) = 9007199254740991 / 9007199254740992"
  by (rule fl_evalI [where n = "9007199254740991" and k = 53]) simp_all

lemma fl_score_35 [fl_value]: "fl (5404319552844595 / 9007199254740992) = 5404319552844595 / 9007199254740992"
  by (rule fl_exactI [where n = "5404319552844595" and k = 53]) simp_all

lemma fl_score_36 [fl_value]: "fl (14411518807585587 / 18014398509481984) = 3602879701896397 / 4503599627370496"
  by (rule fl_evalI [where n = "7205759403792794" and k = 53]) simp_all

lemma fl_score_37 [fl_value]: "fl (32425917317067573 / 36028797018963968) = 8106479329266893 / 9007199254740992"
  by (rule fl_evalI [where n = "8106479329266893" and k = 53]) simp_all

lemma fl_score_38 [fl_value]: "fl (3422735716801577 / 18014398509481984) = 3422735716801577 / 18014398509481984"
  by (rule fl_exactI [where n = "3422735716801577" and k = 54]) simp_all

lemma fadd_mono: "a \<le> a' \<Longrightarrow> b \<le> b' \<Longrightarrow> fadd a b \<le> fadd a' b'"
  unfolding fadd_def by (rule fl_mono) simp

lemma fmul_mono: "0 \<le> a \<Longrightarrow> a \<le> a' \<Longrightarrow> 0 \<le> w \<Longrightarrow> fmul a w \<le> fmul a' w"
  unfolding fmul_def by (rule fl_mono) (simp add: mult_right_mono)

lemma weights_nonneg:
  "0 \<le> w_technical weights" "0 \<le> w_fundamental weights" "0 \<le> w_sentiment weights"
  "0 \<le> w_market_structure weights"
  by (simp_all add: weights_def fl_nonneg)

lemma weighted_sum_mono:
  assumes "0 \<le> a" "a \<le> a'" "0 \<le> b" "b \<le> b'" "0 \<le> c" "c \<le> c'" "0 \<le> d" "d \<le> d'"
  shows "weighted_sum a b c d \<le> weighted_sum a' b' c' d'"
  unfolding weighted_sum_def
  by (intro fadd_mono fmul_mono assms weights_nonneg)

lemma weighted_sum_least: "weighted_sum (fl 0.2) (fl 0.4) (fl 0.3) 0.5 = fl 0.31"
  by (simp add: weighted_sum_def weights_def fadd_def fmul_def fl_value)

lemma weighted_sum_greatest: "weighted_sum (fl 0.8) (fl 0.7) (fl 0.7) (fl 0.8) = 0.75"
  by (simp add: weighted_sum_def weights_def fadd_def fmul_def fl_value)

lemma technicalScore_values: "technicalScore t \<in> {fl 0.2, 0.5, fl 0.8}"
  by (simp add: technicalScore_def split: option.splits)

lemma gw_technicalScore_values: "gw_technicalScore t \<in> {fl 0.2, 0.5, fl 0.8}"
  by (simp add: gw_technicalScore_def Let_def)

lemma fundamentalScore_values: "fundamentalScore m \<in> {fl 0.4, fl 0.7}"
  by (simp add: fundamentalScore_def)

lemma sentimentScore_values: "sentimentScore s \<in> {fl 0.3, fl 0.7}"
  by (simp add: sentimentScore_def)

lemma structureScore_values: "structureScore m \<in> {0.5, fl 0.8}"
  by (simp add: structureScore_def)

lemma weighted_sum_range:
  assumes "a \<in> {fl 0.2, 0.5, fl 0.8}" and "b \<in> {fl 0.4, fl 0.7}" and "c \<in> {fl 0.3, fl 0.7}"
    and "d \<in> {0.5, fl 0.8}"
  shows "fl 0.31 \<le> weighted_sum a b c d \<and> weighted_sum a b c d \<le> 0.75"
proof -
  have a: "fl 0.2 \<le> a" "a \<le> fl 0.8" using assms(1) by (auto simp: fl_value)
  have b: "fl 0.4 \<le> b" "b \<le> fl 0.7" using assms(2) by (auto simp: fl_value)
  have c: "fl 0.3 \<le> c" "c \<le> fl 0.7" using assms(3) by (auto simp: fl_value)
  have d: "0.5 \<le> d" "d \<le> fl 0.8" using assms(4) by (auto simp: fl_value)
  have n: "0 \<le> fl 0.2" "0 \<le> fl 0.4" "0 \<le> fl 0.3" "(0::real) \<le> 0.5"
    by (simp_all add: fl_nonneg)
  have "weighted_sum (fl 0.2) (fl 0.4) (fl 0.3) 0.5 \<le> weighted_sum a b c d"
    using a b c d n by (intro weighted_sum_mono) simp_all
  moreover have "weighted_sum a b c d \<le> weighted_sum (fl 0.8) (fl 0.7) (fl 0.7) (fl 0.8)"
    using a b c d n by (intro weighted_sum_mono) simp_all
  ultimately show ?thesis by (simp only: weighted_sum_least weighted_sum_greatest)
qed

lemma finalScore_range: "fl 0.31 \<le> finalScore t s m \<and> finalScore t s m \<le> 0.75"
  unfolding finalScore_def
  by (rule weighted_sum_range
      [OF technicalScore_values fundamentalScore_values sentimentScore_values
        structureScore_values])

lemma gw_finalScore_range: "fl 0.31 \<le> gw_finalScore t s m \<and> gw_finalScore t s m \<le> 0.75"
  unfolding gw_finalScore_def
  by (rule weighted_sum_range
      [OF gw_technicalScore_values fundamentalScore_values sentimentScore_values
        structureScore_values])

lemma confidence_bounds:
  assumes "fl 0.31 \<le> x" and "x \<le> 0.75"
  shows "0 \<le> fmul \<bar>fsub x 0.5\<bar> 200" and "fmul \<bar>fsub x 0.5\<bar> 200 \<le> 50"
proof -
  have "1 / 4 \<le> fl 0.31" by (simp add: fl_value)
  then have "- (1 / 4) \<le> x - 0.5" and "x - 0.5 \<le> 1 / 4" using assms by simp_all
  then have "fl (- (1 / 4)) \<le> fl (x - 0.5)" and "fl (x - 0.5) \<le> fl (1 / 4)"
    by (simp_all only: fl_mono)
  then have "\<bar>fsub x 0.5\<bar> \<le> 1 / 4" by (simp add: fsub_def)
  then have "\<bar>fsub x 0.5\<bar> * 200 \<le> 50" by simp
  then have "fl (\<bar>fsub x 0.5\<bar> * 200) \<le> fl 50" by (rule fl_mono)
  then show "fmul \<bar>fsub x 0.5\<bar> 200 \<le> 50" by (simp add: fmul_def)
  show "0 \<le> fmul \<bar>fsub x 0.5\<bar> 200" unfolding fmul_def by (rule fl_nonneg) simp
qed

lemma generateGodPrediction_eq:
  "generateGodPrediction t f s m = prediction_of (finalScore t s m) (targets_of t)"
  by (simp add: generateGodPrediction_def)

text \<open>
  Where rounding decides: at the sub-scores 0.5, 0.7, 0.7, 0.5 the exact weighted sum is
  0.6, which is not above 0.6; the binary64 sum is 0.6000000000000001, above the binary64
  0.6, and the direction is \<open>BULLISH\<close>.
\<close>

lemma generateGodPrediction_rounded_score:
  "finalScore (Some \<lparr>sma_20 = None, sma_50 = None, rsi = Some 50, bollinger_bands = None,
       support_resistance = [], price_change_24h = 0, volatility = 0\<rparr>)
     \<lparr>score = 1\<rparr> \<lparr>liquidityScore = 1, institutionalInterest = ''medium''\<rparr>
     = 1351079888211149 / 2251799813685248
   \<and> fl 0.6 = 5404319552844595 / 9007199254740992
   \<and> direction (generateGodPrediction
       (Some \<lparr>sma_20 = None, sma_50 = None, rsi = Some 50, bollinger_bands = None,
          support_resistance = [], price_change_24h = 0, volatility = 0\<rparr>) ()
       \<lparr>score = 1\<rparr> \<lparr>liquidityScore = 1, institutionalInterest = ''medium''\<rparr>) = ''BULLISH''"
  by (simp add: generateGodPrediction_def prediction_of_def finalScore_def weighted_sum_def
      weights_def technicalScore_def fundamentalScore_def sentimentScore_def
      structureScore_def fadd_def fmul_def fl_value)

text \<open>
  Claim C2. In both engines, with \<open>score\<close> the binary64 weighted sum of the four sub-scores
  with the weights 0.4, 0.3, 0.2 and 0.1, the direction is \<open>BULLISH\<close> when \<open>score > 0.6\<close>,
  \<open>BEARISH\<close> when \<open>score < 0.4\<close> and \<open>NEUTRAL\<close> otherwise; the confidence is
  \<open>|score - 0.5| * 200\<close> and lies in \<open>[0, 100]\<close>; the risk level is \<open>HIGH\<close> exactly when
  \<open>score > 0.7\<close> or \<open>score < 0.3\<close>. The score is written out in the statement.
\<close>

theorem generateGodPrediction_output_mapping:
  fixes t :: "technicals option" and g :: gw_technicals and s :: sentiment_in
    and m :: market_structure_in and f :: 'f
  defines "sc \<equiv>
    fadd
      (fadd
         (fadd (fmul (technicalScore t) (fl 0.4)) (fmul (fundamentalScore m) (fl 0.3)))
         (fmul (sentimentScore s) (fl 0.2)))
      (fmul (structureScore m) (fl 0.1))"
  defines "gsc \<equiv>
    fadd
      (fadd
         (fadd (fmul (gw_technicalScore g) (fl 0.4)) (fmul (fundamentalScore m) (fl 0.3)))
         (fmul (sentimentScore s) (fl 0.2)))
      (fmul (structureScore m) (fl 0.1))"
  shows
    "direction (generateGodPrediction t f s m)
       = (if sc > fl 0.6 then ''BULLISH'' else if sc < fl 0.4 then ''BEARISH'' else ''NEUTRAL'')
     \<and> confidence (generateGodPrediction t f s m) = fmul \<bar>fsub sc 0.5\<bar> 200
     \<and> 0 \<le> confidence (generateGodPrediction t f s m)
     \<and> confidence (generateGodPrediction t f s m) \<le> 100
     \<and> (risk_level (generateGodPrediction t f s m) = ''HIGH'' \<longleftrightarrow> sc > fl 0.7 \<or> sc < fl 0.3)
     \<and> direction (gw_generateGodPrediction g f s m)
       = (if gsc > fl 0.6 then ''BULLISH'' else if gsc < fl 0.4 then ''BEARISH'' else ''NEUTRAL'')
     \<and> confidence (gw_generateGodPrediction g f s m) = fmul \<bar>fsub gsc 0.5\<bar> 200
     \<and> 0 \<le> confidence (gw_generateGodPrediction g f s m)
     \<and> confidence (gw_generateGodPrediction g f s m) \<le> 100
     \<and> (risk_level (gw_generateGodPrediction g f s m) = ''HIGH''
          \<longleftrightarrow> gsc > fl 0.7 \<or> gsc < fl 0.3)"
proof -
  have sc: "finalScore t s m = sc"
    by (simp add: finalScore_def weighted_sum_def weights_def sc_def)
  have gsc: "gw_finalScore g s m = gsc"
    by (simp add: gw_finalScore_def weighted_sum_def weights_def gsc_def)
  have r: "fl 0.31 \<le> sc" "sc \<le> 0.75"
    using finalScore_range [of t s m] by (simp_all only: sc)
  have gr: "fl 0.31 \<le> gsc" "gsc \<le> 0.75"
    using gw_finalScore_range [of g s m] by (simp_all only: gsc)
  have c: "0 \<le> fmul \<bar>fsub sc 0.5\<bar> 200" "fmul \<bar>fsub sc 0.5\<bar> 200 \<le> 50"
    using r by (rule confidence_bounds)+
  have gc: "0 \<le> fmul \<bar>fsub gsc 0.5\<bar> 200" "fmul \<bar>fsub gsc 0.5\<bar> 200 \<le> 50"
    using gr by (rule confidence_bounds)+
  have p: "generateGodPrediction t f s m = prediction_of sc (targets_of t)"
    by (simp only: generateGodPrediction_def sc)
  have gp: "gw_generateGodPrediction g f s m = prediction_of gsc (gw_targets_of g)"
    by (simp only: gw_generateGodPrediction_def gsc)
  show ?thesis
    unfolding p gp using c gc by (simp add: prediction_of_def)
qed

text \<open>
  Claim C9. The sub-scores take the values \<open>{0.2, 0.5, 0.8}\<close>, \<open>{0.4, 0.7}\<close>, \<open>{0.3, 0.7}\<close> and
  \<open>{0.5, 0.8}\<close> (as binary64 literals), so in both engines the final score lies in
  \<open>[0.31, 0.75]\<close>, the confidence never exceeds 50, the risk level is \<open>HIGH\<close> or \<open>MEDIUM\<close> and
  never \<open>LOW\<close>, and the score is never below 0.3. The bounds are the binary64 literals
  0.31, 0.75 and 0.3, the numbers the program compares with.
\<close>

theorem generateGodPrediction_score_range:
  "technicalScore t \<in> {fl 0.2, 0.5, fl 0.8} \<and> gw_technicalScore g \<in> {fl 0.2, 0.5, fl 0.8}
   \<and> fundamentalScore m \<in> {fl 0.4, fl 0.7} \<and> sentimentScore s \<in> {fl 0.3, fl 0.7}
   \<and> structureScore m \<in> {0.5, fl 0.8}
   \<and> fl 0.31 \<le> finalScore t s m \<and> finalScore t s m \<le> fl 0.75
   \<and> confidence (generateGodPrediction t f s m) \<le> 50
   \<and> (risk_level (generateGodPrediction t f s m) = ''HIGH''
        \<or> risk_level (generateGodPrediction t f s m) = ''MEDIUM'')
   \<and> risk_level (generateGodPrediction t f s m) \<noteq> ''LOW''
   \<and> \<not> finalScore t s m < fl 0.3
   \<and> fl 0.31 \<le> gw_finalScore g s m \<and> gw_finalScore g s m \<le> fl 0.75
   \<and> confidence (gw_generateGodPrediction g f s m) \<le> 50
   \<and> (risk_level (gw_generateGodPrediction g f s m) = ''HIGH''
        \<or> risk_level (gw_generateGodPrediction g f s m) = ''MEDIUM'')
   \<and> risk_level (gw_generateGodPrediction g f s m) \<noteq> ''LOW''
   \<and> \<not> gw_finalScore g s m < fl 0.3"
proof -
  have r: "fl 0.31 \<le> finalScore t s m" "finalScore t s m \<le> 0.75"
    using finalScore_range [of t s m] by simp_all
  have gr: "fl 0.31 \<le> gw_finalScore g s m" "gw_finalScore g s m \<le> 0.75"
    using gw_finalScore_range [of g s m] by simp_all
  have c: "fmul \<bar>fsub (finalScore t s m) 0.5\<bar> 200 \<le> 50"
    using r by (rule confidence_bounds)
  have gc: "fmul \<bar>fsub (gw_finalScore g s m) 0.5\<bar> 200 \<le> 50"
    using gr by (rule confidence_bounds)
  have l: "fl 0.3 \<le> fl 0.31" by (rule fl_mono) simp
  have q: "fl 0.75 = 0.75" by simp
  have "\<not> finalScore t s m < fl 0.3" "\<not> gw_finalScore g s m < fl 0.3"
    using r gr l by linarith+
  then show ?thesis
    using r gr c gc technicalScore_values [of t] gw_technicalScore_values [of g]
      fundamentalScore_values [of m] sentimentScore_values [of s] structureScore_values [of m]
    by (simp add: generateGodPrediction_eq gw_generateGodPrediction_def prediction_of_def q)
qed

text \<open>
  Claim C6, as the source has it. The weights are the constants 0.4, 0.3, 0.2 and 0.1 of
  the function body, and their binary64 sum 0.9999999999999999 is within \<open>10 ^ -9\<close> of 1.
  No weight set can be handed to the scorer and nothing is checked: the second argument is
  the only one the function does not read, and the result is the same whatever is passed
  there; the score is the sum weighted with the four constants.
\<close>

theorem weights_fixed_sum_one:
  "weights = \<lparr>w_technical = fl 0.4, w_fundamental = fl 0.3, w_sentiment = fl 0.2,
      w_market_structure = fl 0.1\<rparr>
   \<and> \<bar>fadd (fadd (fadd (w_technical weights) (w_fundamental weights)) (w_sentiment weights))
         (w_market_structure weights) - 1\<bar> \<le> 1 / 10 ^ 9
   \<and> generateGodPrediction t f s m = generateGodPrediction t f' s m
   \<and> gw_generateGodPrediction g f s m = gw_generateGodPrediction g f' s m
   \<and> finalScore t s m
       = fadd
           (fadd
              (fadd (fmul (technicalScore t) (fl 0.4)) (fmul (fundamentalScore m) (fl 0.3)))
              (fmul (sentimentScore s) (fl 0.2)))
           (fmul (structureScore m) (fl 0.1))
   \<and> gw_finalScore g s m
       = fadd
           (fadd
              (fadd (fmul (gw_technicalScore g) (fl 0.4)) (fmul (fundamentalScore m) (fl 0.3)))
              (fmul (sentimentScore s) (fl 0.2)))
           (fmul (structureScore m) (fl 0.1))"
  by (simp add: weights_def generateGodPrediction_def gw_generateGodPrediction_def
      finalScore_def gw_finalScore_def weighted_sum_def fadd_def fl_value)

text \<open>
  A caller that hands over a weight set summing to 0.9, in the one argument that is free
  for it, gets no error: the function ignores the object and returns a prediction computed
  with its own weights (score 0.51, confidence 2.0000000000000018).
\<close>

theorem weights_unchecked_counterexample:
  "\<bar>fadd (fadd (fadd (fl 0.3) (fl 0.3)) (fl 0.2)) (fl 0.1) - 0.9\<bar> \<le> 1 / 10 ^ 9
   \<and> generateGodPrediction None
       \<lparr>w_technical = fl 0.3, w_fundamental = fl 0.3, w_sentiment = fl 0.2,
        w_market_structure = fl 0.1\<rparr>
       \<lparr>score = 1\<rparr> \<lparr>liquidityScore = 0, institutionalInterest = ''medium''\<rparr>
     = \<lparr>direction = ''NEUTRAL'', confidence = 1125899906842625 / 562949953421312,
        timeframe = ''24h-7d'', price_targets = \<lparr>support = NA, resistance = NA\<rparr>,
        risk_level = ''MEDIUM''\<rparr>"
  by (simp add: generateGodPrediction_def prediction_of_def finalScore_def weighted_sum_def
      weights_def technicalScore_def fundamentalScore_def sentimentScore_def
      structureScore_def targets_of_def or_NA_def fadd_def fsub_def fmul_def fl_value)

subsection \<open>Support and resistance\<close>

lemma support_scan_last:
  assumes "i + lookback \<notin> set js"
  shows "support_scan prices i current (js @ [i + lookback])
           = (if \<forall>j \<in> set (js @ [i + lookback]). j \<noteq> i \<longrightarrow> current < prices ! j
              then [\<lparr>type = ''support'', price = current, strength = ''medium''\<rparr>] else [])"
  using assms by (induction js) (auto simp: not_le)

lemma resistance_scan_last:
  assumes "i + lookback \<notin> set js"
  shows "resistance_scan prices i current (js @ [i + lookback])
           = (if \<forall>j \<in> set (js @ [i + lookback]). j \<noteq> i \<longrightarrow> prices ! j < current
              then [\<lparr>type = ''resistance'', price = current, strength = ''medium''\<rparr>] else [])"
  using assms by (induction js) (auto simp: not_le)

lemma window_upt: "[i - lookback ..< i + lookback + 1] = [i - lookback ..< i + lookback] @ [i + lookback]"
  by simp

lemma levels_at_eq:
  "levels_at prices i
     = (if \<forall>j \<in> {i - lookback .. i + lookback}. j \<noteq> i \<longrightarrow> prices ! i < prices ! j
        then [\<lparr>type = ''support'', price = prices ! i, strength = ''medium''\<rparr>] else [])
       @ (if \<forall>j \<in> {i - lookback .. i + lookback}. j \<noteq> i \<longrightarrow> prices ! j < prices ! i
          then [\<lparr>type = ''resistance'', price = prices ! i, strength = ''medium''\<rparr>] else [])"
proof -
  have n: "i + lookback \<notin> set [i - lookback ..< i + lookback]" by simp
  have s: "set ([i - lookback ..< i + lookback] @ [i + lookback]) = {i - lookback .. i + lookback}"
    by auto
  show ?thesis
    unfolding levels_at_def Let_def window_upt
      support_scan_last [OF n] resistance_scan_last [OF n] s
    by (rule refl)
qed

lemma gw_levels_at_support:
  "\<lparr>type = ''support'', price = prices ! i, strength = ''medium''\<rparr> \<in> set (gw_levels_at prices i)
     \<longleftrightarrow> length (filter (\<lambda>p. p < prices ! i) (slice prices (i - gw_lookback) (i + gw_lookback))) \<le> 2"
  by (simp add: gw_levels_at_def Let_def)

lemma gw_levels_at_resistance:
  "\<lparr>type = ''resistance'', price = prices ! i, strength = ''medium''\<rparr> \<in> set (gw_levels_at prices i)
     \<longleftrightarrow> length (filter (\<lambda>p. p > prices ! i) (slice prices (i - gw_lookback) (i + gw_lookback))) \<le> 2"
  by (simp add: gw_levels_at_def Let_def)

text \<open>A single dip in a flat series of 21 prices is the one support level.\<close>

lemma levels_at_dip:
  "levels_at [2, 2, 2, 2, 2, 2, 2, 2, 2, 2, 1, 2, 2, 2, 2, 2, 2, 2, 2, 2, 2] 10
     = [\<lparr>type = ''support'', price = 1, strength = ''medium''\<rparr>]"
  by code_simp

text \<open>In the gateway engine, the middle index of 41 equal prices is both kinds of level.\<close>

lemma gw_levels_at_flat:
  "gw_levels_at (replicate 41 1) 20
     = [\<lparr>type = ''support'', price = 1, strength = ''medium''\<rparr>,
        \<lparr>type = ''resistance'', price = 1, strength = ''medium''\<rparr>]"
  by code_simp

text \<open>
  Claim C4, as the source has it. In the simplified engine, whose lookback radius is fixed
  at 10, the iteration at index \<open>i\<close> (\<open>10 \<le> i < n - 10\<close>) pushes a support level exactly when
  \<open>prices[i]\<close> is the strict minimum of the window \<open>[i - 10, i + 10]\<close> and a resistance level
  exactly when it is the strict maximum; the function returns the last 10 pushed levels.
  The gateway engine uses another rule: a support level when at most two prices of
  \<open>[i - 20, i + 20)\<close> are strictly below \<open>prices[i]\<close>, a resistance level when at most two are
  strictly above.
\<close>

theorem levels_at_strict_extremum:
  "lookback = 10 \<and> gw_lookback = 20
   \<and> (lookback \<le> i \<and> i < length prices - lookback \<longrightarrow>
        (\<lparr>type = ''support'', price = prices ! i, strength = ''medium''\<rparr> \<in> set (levels_at prices i)
           \<longleftrightarrow> (\<forall>j. i - lookback \<le> j \<and> j \<le> i + lookback \<and> j \<noteq> i \<longrightarrow> prices ! i < prices ! j))
        \<and> (\<lparr>type = ''resistance'', price = prices ! i, strength = ''medium''\<rparr> \<in> set (levels_at prices i)
           \<longleftrightarrow> (\<forall>j. i - lookback \<le> j \<and> j \<le> i + lookback \<and> j \<noteq> i \<longrightarrow> prices ! j < prices ! i)))
   \<and> calculateSupportResistance prices
        = slice_last (concat (map (levels_at prices) [lookback ..< length prices - lookback])) 10
   \<and> (gw_lookback \<le> i \<and> i < length prices - gw_lookback \<longrightarrow>
        (\<lparr>type = ''support'', price = prices ! i, strength = ''medium''\<rparr>
             \<in> set (gw_levels_at prices i)
           \<longleftrightarrow> length (filter (\<lambda>p. p < prices ! i)
                 (slice prices (i - gw_lookback) (i + gw_lookback))) \<le> 2)
        \<and> (\<lparr>type = ''resistance'', price = prices ! i, strength = ''medium''\<rparr>
             \<in> set (gw_levels_at prices i)
           \<longleftrightarrow> length (filter (\<lambda>p. p > prices ! i)
                 (slice prices (i - gw_lookback) (i + gw_lookback))) \<le> 2))
   \<and> gw_calculateSupportResistance prices
        = slice_last (concat (map (gw_levels_at prices) [gw_lookback ..< length prices - gw_lookback])) 10"
proof -
  have a: "(\<forall>j \<in> {i - lookback .. i + lookback}. j \<noteq> i \<longrightarrow> prices ! i < prices ! j)
             \<longleftrightarrow> (\<forall>j. i - lookback \<le> j \<and> j \<le> i + lookback \<and> j \<noteq> i \<longrightarrow> prices ! i < prices ! j)"
    by auto
  have b: "(\<forall>j \<in> {i - lookback .. i + lookback}. j \<noteq> i \<longrightarrow> prices ! j < prices ! i)
             \<longleftrightarrow> (\<forall>j. i - lookback \<le> j \<and> j \<le> i + lookback \<and> j \<noteq> i \<longrightarrow> prices ! j < prices ! i)"
    by auto
  have s: "\<lparr>type = ''support'', price = prices ! i, strength = ''medium''\<rparr> \<in> set (levels_at prices i)
            \<longleftrightarrow> (\<forall>j. i - lookback \<le> j \<and> j \<le> i + lookback \<and> j \<noteq> i \<longrightarrow> prices ! i < prices ! j)"
    unfolding a [symmetric] by (simp add: levels_at_eq)
  have r: "\<lparr>type = ''resistance'', price = prices ! i, strength = ''medium''\<rparr> \<in> set (levels_at prices i)
            \<longleftrightarrow> (\<forall>j. i - lookback \<le> j \<and> j \<le> i + lookback \<and> j \<noteq> i \<longrightarrow> prices ! j < prices ! i)"
    unfolding b [symmetric] by (simp add: levels_at_eq)
  have c: "calculateSupportResistance prices
            = slice_last (concat (map (levels_at prices) [lookback ..< length prices - lookback])) 10"
    by (simp add: calculateSupportResistance_def detected_levels_def)
  have g: "gw_calculateSupportResistance prices
        = slice_last (concat (map (gw_levels_at prices) [gw_lookback ..< length prices - gw_lookback])) 10"
    by (simp add: gw_calculateSupportResistance_def gw_detected_levels_def)
  have l: "lookback = 10" "gw_lookback = 20" by (simp_all add: lookback_def gw_lookback_def)
  show ?thesis
    using s r c g l gw_levels_at_support [of prices i] gw_levels_at_resistance [of prices i]
    by blast
qed

theorem levels_at_strict_extremum_witness:
  "lookback \<le> 10
   \<and> 10 < length [2, 2, 2, 2, 2, 2, 2, 2, 2, 2, 1, 2, 2, 2, 2, 2, 2, 2, 2, 2, 2 :: real] - lookback
   \<and> \<lparr>type = ''support'', price = 1, strength = ''medium''\<rparr>
       \<in> set (levels_at [2, 2, 2, 2, 2, 2, 2, 2, 2, 2, 1, 2, 2, 2, 2, 2, 2, 2, 2, 2, 2] 10)
   \<and> [2, 2, 2, 2, 2, 2, 2, 2, 2, 2, 1, 2, 2, 2, 2, 2, 2, 2, 2, 2, 2 :: real] ! 10
       < [2, 2, 2, 2, 2, 2, 2, 2, 2, 2, 1, 2, 2, 2, 2, 2, 2, 2, 2, 2, 2] ! 20
   \<and> \<lparr>type = ''resistance'', price = 1, strength = ''medium''\<rparr>
       \<notin> set (levels_at [2, 2, 2, 2, 2, 2, 2, 2, 2, 2, 1, 2, 2, 2, 2, 2, 2, 2, 2, 2, 2] 10)
   \<and> gw_lookback \<le> 20 \<and> 20 < length (replicate 41 (1::real)) - gw_lookback
   \<and> \<lparr>type = ''support'', price = 1, strength = ''medium''\<rparr>
       \<in> set (gw_levels_at (replicate 41 1) 20)
   \<and> length (filter (\<lambda>p. p < replicate 41 (1::real) ! 20)
         (slice (replicate 41 1) (20 - gw_lookback) (20 + gw_lookback))) \<le> 2"
proof -
  let ?p = "[2, 2, 2, 2, 2, 2, 2, 2, 2, 2, 1, 2, 2, 2, 2, 2, 2, 2, 2, 2, 2 :: real]"
  let ?q = "replicate 41 (1::real)"
  have h1: "lookback \<le> 10 \<and> 10 < length ?p - lookback" by (simp add: lookback_def)
  have p10: "?p ! 10 = 1" by simp
  have m: "\<lparr>type = ''support'', price = ?p ! 10, strength = ''medium''\<rparr> \<in> set (levels_at ?p 10)"
    by (simp add: levels_at_dip)
  have n: "\<lparr>type = ''resistance'', price = ?p ! 10, strength = ''medium''\<rparr> \<notin> set (levels_at ?p 10)"
    by (simp add: levels_at_dip)
  from levels_at_strict_extremum [of 10 ?p] h1 m
  have "\<forall>j. 10 - lookback \<le> j \<and> j \<le> 10 + lookback \<and> j \<noteq> 10 \<longrightarrow> ?p ! 10 < ?p ! j"
    by blast
  then have lt: "?p ! 10 < ?p ! 20" by (simp add: lookback_def)
  have h2: "gw_lookback \<le> 20 \<and> 20 < length ?q - gw_lookback" by (simp add: gw_lookback_def)
  have q20: "?q ! 20 = 1" by simp
  have gm: "\<lparr>type = ''support'', price = ?q ! 20, strength = ''medium''\<rparr> \<in> set (gw_levels_at ?q 20)"
    by (simp add: gw_levels_at_flat)
  from levels_at_strict_extremum [of 20 ?q] h2 gm
  have cnt: "length (filter (\<lambda>p. p < ?q ! 20) (slice ?q (20 - gw_lookback) (20 + gw_lookback))) \<le> 2"
    by blast
  from h1 m n lt p10 h2 gm q20 cnt show ?thesis by simp
qed

text \<open>
  In the gateway engine a level need not be a strict extremum: on 41 equal prices index 20
  is both a support and a resistance level, and its neighbour has the same price.
\<close>

theorem gw_support_not_strict_minimum_counterexample:
  "gw_calculateSupportResistance (replicate 41 1)
     = [\<lparr>type = ''support'', price = 1, strength = ''medium''\<rparr>,
        \<lparr>type = ''resistance'', price = 1, strength = ''medium''\<rparr>]
   \<and> replicate 41 (1::real) ! 19 = replicate 41 1 ! 20"
  by code_simp

text \<open>
  Claim C8, as the source has it. The detector is a function of the price series alone (it
  reads no clock, random source or state), so two runs agree. A tie is not resolved in
  favour of the first index: in the simplified engine an index whose price also occurs at
  another index of its window pushes no level at all, and in the gateway engine all tied
  indices push their levels (\<open>gw_tied_indices_both_levels\<close> below).
\<close>

theorem levels_at_tie_no_level:
  assumes "lookback \<le> i" and "i < length prices - lookback"
    and "i - lookback \<le> j" and "j \<le> i + lookback" and "j \<noteq> i"
    and "prices ! j = prices ! i"
  shows "levels_at prices i = []"
proof -
  have j: "j \<in> {i - lookback .. i + lookback}" using assms(3,4) by simp
  have "\<not> (\<forall>j \<in> {i - lookback .. i + lookback}. j \<noteq> i \<longrightarrow> prices ! i < prices ! j)"
    using j assms(5,6) by force
  moreover have "\<not> (\<forall>j \<in> {i - lookback .. i + lookback}. j \<noteq> i \<longrightarrow> prices ! j < prices ! i)"
    using j assms(5,6) by force
  ultimately show ?thesis by (simp add: levels_at_eq)
qed

theorem levels_at_tie_no_level_witness:
  "lookback \<le> 10
   \<and> 10 < length [2, 2, 2, 2, 2, 2, 2, 2, 2, 2, 1, 1, 2, 2, 2, 2, 2, 2, 2, 2, 2, 2 :: real] - lookback
   \<and> 10 - lookback \<le> 11 \<and> 11 \<le> 10 + lookback \<and> (11::nat) \<noteq> 10
   \<and> [2, 2, 2, 2, 2, 2, 2, 2, 2, 2, 1, 1, 2, 2, 2, 2, 2, 2, 2, 2, 2, 2 :: real] ! 11
       = [2, 2, 2, 2, 2, 2, 2, 2, 2, 2, 1, 1, 2, 2, 2, 2, 2, 2, 2, 2, 2, 2] ! 10
   \<and> levels_at [2, 2, 2, 2, 2, 2, 2, 2, 2, 2, 1, 1, 2, 2, 2, 2, 2, 2, 2, 2, 2, 2] 10 = []"
proof -
  have h1: "lookback \<le> 10" by (simp add: lookback_def)
  have h2: "10 < length [2, 2, 2, 2, 2, 2, 2, 2, 2, 2, 1, 1, 2, 2, 2, 2, 2, 2, 2, 2, 2, 2 :: real] - lookback"
    by (simp add: lookback_def)
  have h3: "10 - lookback \<le> 11" by simp
  have h4: "11 \<le> 10 + lookback" by (simp add: lookback_def)
  have h5: "(11::nat) \<noteq> 10" by simp
  have h6: "[2, 2, 2, 2, 2, 2, 2, 2, 2, 2, 1, 1, 2, 2, 2, 2, 2, 2, 2, 2, 2, 2 :: real] ! 11
       = [2, 2, 2, 2, 2, 2, 2, 2, 2, 2, 1, 1, 2, 2, 2, 2, 2, 2, 2, 2, 2, 2] ! 10"
    by simp
  show ?thesis
    using h1 h2 h3 h4 h5 h6 levels_at_tie_no_level [OF h1 h2 h3 h4 h5 h6] by blast
qed

text \<open>
  Two adjacent equal lows in a flat series of 22 prices: both windows see the tie, and no
  level is returned, not even for the first of the two.
\<close>

theorem tied_extremum_counterexample:
  "calculateSupportResistance [2, 2, 2, 2, 2, 2, 2, 2, 2, 2, 1, 1, 2, 2, 2, 2, 2, 2, 2, 2, 2, 2] = []"
  by code_simp

text \<open>
  In the gateway engine a tie is not resolved in favour of the first index either: on 42
  equal prices the two indices 20 and 21 both push a support and a resistance level.
\<close>

lemma gw_tied_indices_both_levels:
  "gw_calculateSupportResistance (replicate 42 1)
     = [\<lparr>type = ''support'', price = 1, strength = ''medium''\<rparr>,
        \<lparr>type = ''resistance'', price = 1, strength = ''medium''\<rparr>,
        \<lparr>type = ''support'', price = 1, strength = ''medium''\<rparr>,
        \<lparr>type = ''resistance'', price = 1, strength = ''medium''\<rparr>]"
  by code_simp

end
